theory Spec2Isabelle
  imports Main
begin

section \<open>JavaScript strings and values\<close>

text \<open>
  The builders assemble SQL text from string pieces. Two characters cannot be written
  inside a string literal here and get a name: the double quote that wraps identifiers
  and the single quote that wraps SQL string literals.
\<close>

definition dq :: string where
  "dq = [CHR 0x22]"

definition sq :: string where
  "sq = [CHR 0x27]"

text \<open>\<open>String(n)\<close> for an integral number: its decimal digits, with a sign.\<close>

definition digit_char :: "nat \<Rightarrow> char" where
  "digit_char d = ''0123456789'' ! d"

fun decimal :: "nat \<Rightarrow> string" where
  "decimal n =
     (if n div 10 = 0 then [digit_char n]
      else decimal (n div 10) @ [digit_char (n mod 10)])"

declare decimal.simps [simp del]

definition js_String :: "int \<Rightarrow> string" where
  "js_String i = (if 0 \<le> i then decimal (nat i) else CHR ''-'' # decimal (nat (- i)))"

text \<open>A thrown \<open>Error\<close> (or \<open>TypeError\<close>) carries its message.\<close>

datatype error = Error string | TypeError string

definition ebind :: "error + 'a \<Rightarrow> ('a \<Rightarrow> error + 'b) \<Rightarrow> error + 'b" where
  "ebind m f = (case m of Inl e \<Rightarrow> Inl e | Inr x \<Rightarrow> f x)"

section \<open>Prisma.sql\<close>

text \<open>
  A \<open>Prisma.Sql\<close> value is a statement text with \<open>?\<close> placeholders (its \<open>sql\<close> getter,
  the one \<open>executeQuery\<close> sends) and the list of the values bound to them. A bound value
  is a string, or a filter value of the query: the type \<open>'v\<close> of filter values comes from
  a package outside the repository and stays a parameter.
\<close>

datatype 'v bind = BStr string | BVal 'v

datatype 'v sql = Sql (sql_text: string) (sql_values: "'v bind list")

text \<open>\<open>Prisma.raw(s)\<close>: text spliced as it is. A plain \<open>${v}\<close>: a placeholder.\<close>

definition raw :: "string \<Rightarrow> 'v sql" where
  "raw s = Sql s []"

definition bound :: "'v bind \<Rightarrow> 'v sql" where
  "bound v = Sql ''?'' [v]"

definition sql_app :: "'v sql \<Rightarrow> 'v sql \<Rightarrow> 'v sql" where
  "sql_app a b = Sql (sql_text a @ sql_text b) (sql_values a @ sql_values b)"

text \<open>The tagged template: its literal pieces and its interpolations, in order.\<close>

definition sql_tpl :: "'v sql list \<Rightarrow> 'v sql" where
  "sql_tpl parts = foldr sql_app parts (raw [])"

text \<open>
  \<open>Prisma.join(values, separator, prefix, suffix)\<close> throws a \<open>TypeError\<close> on an empty
  array.
\<close>

fun join_items :: "string \<Rightarrow> 'v sql list \<Rightarrow> 'v sql" where
  "join_items sep [] = raw []"
| "join_items sep [x] = x"
| "join_items sep (x # y # ys) = sql_app x (sql_app (raw sep) (join_items sep (y # ys)))"

definition join :: "'v sql list \<Rightarrow> string \<Rightarrow> string \<Rightarrow> string \<Rightarrow> error + 'v sql" where
  "join vs separator prefix suffix =
     (if vs = []
      then Inl (TypeError ''Expected `join([])` to be called with an array of multiple elements, but got an empty array'')
      else Inr (sql_tpl [raw prefix, join_items separator vs, raw suffix]))"

section \<open>MySQL date formats\<close>

definition MYSQL_DATE_FORMATS :: "(string \<times> string) list" where
  "MYSQL_DATE_FORMATS =
     [(''minute'', ''%Y-%m-%d %H:%i:00''),
      (''hour'', ''%Y-%m-%d %H:00:00''),
      (''day'', ''%Y-%m-%d''),
      (''month'', ''%Y-%m-01''),
      (''year'', ''%Y-01-01'')]"

text \<open>
  \<open>MYSQL_DATE_FORMATS\<close> is a plain object literal, and \<open>unit in MYSQL_DATE_FORMATS\<close>
  follows the prototype chain: it also holds for the property names every object
  inherits from \<open>Object.prototype\<close>.
\<close>

definition Object_prototype_keys :: "string list" where
  "Object_prototype_keys =
     [''constructor'', ''__defineGetter__'', ''__defineSetter__'', ''hasOwnProperty'',
      ''__lookupGetter__'', ''__lookupSetter__'', ''isPrototypeOf'',
      ''propertyIsEnumerable'', ''toString'', ''valueOf'', ''__proto__'',
      ''toLocaleString'']"

definition in_MYSQL_DATE_FORMATS :: "string \<Rightarrow> bool" where
  "in_MYSQL_DATE_FORMATS unit =
     (unit \<in> set (map fst MYSQL_DATE_FORMATS) \<or> unit \<in> set Object_prototype_keys)"

text \<open>
  The text that \<open>Prisma.raw(MYSQL_DATE_FORMATS[unit])\<close> splices into a template: the
  format of an own key; the string conversion of an inherited property (a native
  function, or the prototype object itself); \<open>undefined\<close> for any other name.
\<close>

definition format_text :: "string \<Rightarrow> string" where
  "format_text unit =
     (case map_of MYSQL_DATE_FORMATS unit of
        Some f \<Rightarrow> f
      | None \<Rightarrow>
          if unit = ''__proto__'' then ''[object Object]''
          else if unit = ''constructor'' then ''function Object() { [native code] }''
          else if unit \<in> set Object_prototype_keys
            then ''function '' @ unit @ ''() { [native code] }''
          else ''undefined'')"

section \<open>The date bucket expression\<close>

text \<open>
  \<open>getDateQuery(field, unit, timezone, type = 'timestampMs')\<close>, once in each builder
  class. The storage encoding is a string at run time; \<open>None\<close> is an omitted argument.
\<close>

definition long_getDateQuery ::
  "string \<Rightarrow> string \<Rightarrow> string \<Rightarrow> string option \<Rightarrow> error + 'v sql" where
  "long_getDateQuery field unit timezone type_arg =
     (let type = (case type_arg of None \<Rightarrow> ''timestampMs'' | Some t \<Rightarrow> t) in
      if \<not> in_MYSQL_DATE_FORMATS unit then Inl (Error (''Invalid date unit: '' @ unit))
      else
        let format = format_text unit;
            timeExpression =
              (if type = ''timestamp''
                 then sql_tpl [raw ''FROM_UNIXTIME('', raw field, raw '')'']
               else if type = ''timestampMs''
                 then sql_tpl [raw ''FROM_UNIXTIME('', raw field, raw '' / 1000)'']
               else if type = ''date''
                 then sql_tpl [raw ''STR_TO_DATE('', raw field, raw '', '%Y-%m-%d')'']
               else if type = ''datetime''
                 then sql_tpl [raw ''STR_TO_DATE('', raw field, raw '', '%Y-%m-%d %H:%i:%s')'']
               else sql_tpl [raw ''FROM_UNIXTIME('', raw field, raw '' / 1000)''])
        in Inr (sql_tpl [raw ''DATE_FORMAT(CONVERT_TZ('', timeExpression,
                         raw '', '+00:00', '', bound (BStr timezone),
                         raw (''), '' @ sq), raw format, raw (sq @ '')'')]))"

definition wide_getDateQuery ::
  "string \<Rightarrow> string \<Rightarrow> string \<Rightarrow> string option \<Rightarrow> error + 'v sql" where
  "wide_getDateQuery field unit timezone type_arg =
     (let type = (case type_arg of None \<Rightarrow> ''timestampMs'' | Some t \<Rightarrow> t) in
      if \<not> in_MYSQL_DATE_FORMATS unit then Inl (Error (''Invalid date unit: '' @ unit))
      else
        let format = format_text unit;
            timeExpression =
              (if type = ''timestamp''
                 then sql_tpl [raw ''FROM_UNIXTIME('', raw field, raw '')'']
               else if type = ''timestampMs''
                 then sql_tpl [raw ''FROM_UNIXTIME('', raw field, raw '' / 1000)'']
               else if type = ''date''
                 then sql_tpl [raw ''STR_TO_DATE('', raw field, raw '', '%Y-%m-%d')'']
               else if type = ''datetime''
                 then sql_tpl [raw ''STR_TO_DATE('', raw field, raw '', '%Y-%m-%d %H:%i:%s')'']
               else sql_tpl [raw ''FROM_UNIXTIME('', raw field, raw '' / 1000)''])
        in Inr (sql_tpl [raw ''DATE_FORMAT(CONVERT_TZ('', timeExpression,
                         raw '', '+00:00', '', bound (BStr timezone),
                         raw (''), '' @ sq), raw format, raw (sq @ '')'')]))"

section \<open>The query model and the configured applications\<close>

text \<open>
  The validated query object. Instants are milliseconds since the epoch; an optional
  property is an \<open>option\<close>.
\<close>

record metric =
  m_name :: string
  m_math :: string

record 'v custom_group =
  filterOperator :: string
  filterValue :: 'v

record 'v group_info =
  g_value :: string
  g_type :: string
  customGroups :: "'v custom_group list option"

record 'v filter_info =
  f_name :: string
  f_type :: string
  f_operator :: string
  f_value :: 'v

record time_range =
  startAt :: int
  endAt :: int
  time_unit :: string
  time_timezone :: "string option"

record 'v query =
  insightId :: string
  workspaceId :: string
  metrics :: "metric list"
  filters :: "'v filter_info list"
  groups :: "'v group_info list"
  time :: time_range
  cursor :: "string option"

text \<open>\<open>warehouseInsightsApplicationSchema\<close> of the long-table module.\<close>

record event_table =
  et_name :: string
  eventNameField :: string
  et_createdAtField :: string
  et_createdAtFieldType :: string
  et_dateBasedCreatedAtField :: "string option"

record event_parameters_table =
  ept_name :: string
  paramsNameField :: string
  paramsValueField :: string
  paramsValueNumberField :: "string option"
  paramsValueStringField :: "string option"
  paramsValueDateField :: "string option"
  ept_createdAtField :: string
  ept_createdAtFieldType :: string
  ept_dateBasedCreatedAtField :: "string option"

record warehouse_application =
  app_name :: string
  app_type :: string
  eventTable :: event_table
  eventParametersTable :: event_parameters_table

text \<open>
  Modelled from the spec: the type \<open>WarehouseWideTableInsightsApplication\<close> is declared
  in a module that is not among the sources. Its fields are those the wide-table builder
  reads, as the data model of the specification lists them. The wide-table module's
  application list mixes both kinds; the builder views every entry through this type
  and tells the kinds apart by \<open>type\<close>.
\<close>

record wide_application =
  w_name :: string
  w_type :: string
  tableName :: string
  createdAtField :: string
  createdAtFieldType :: string
  dateBasedCreatedAtField :: "string option"
  distinctField :: string
  databaseUrl :: string

text \<open>Truthiness of an optional string (\<open>!!x\<close>) and \<open>x ?? y\<close>.\<close>

definition truthy :: "string option \<Rightarrow> bool" where
  "truthy x = (case x of None \<Rightarrow> False | Some s \<Rightarrow> s \<noteq> [])"

definition nullish_or :: "string option \<Rightarrow> string \<Rightarrow> string" where
  "nullish_or x y = (case x of None \<Rightarrow> y | Some s \<Rightarrow> s)"

text \<open>An optional string inside a template literal: \<open>undefined\<close> prints as such.\<close>

definition tpl_string :: "string option \<Rightarrow> string" where
  "tpl_string x = (case x of None \<Rightarrow> ''undefined'' | Some s \<Rightarrow> s)"

section \<open>The dayjs library\<close>

text \<open>
  What the builders ask of dayjs, a library outside the repository. The calendar of the
  server's time zone is a parameter: the offset from UTC at an instant (in minutes), the
  start and the end of an instant's local day, and the two formatters in use, each for
  an instant of the \<open>Date\<close> range.
\<close>

record dayjs_env =
  utcOffset :: "int \<Rightarrow> int"
  startOf_day :: "int \<Rightarrow> int"
  endOf_day :: "int \<Rightarrow> int"
  format_YMD :: "int \<Rightarrow> string"
  utc_format_YMDHMS :: "int \<Rightarrow> string"

text \<open>
  The instants of a query are numbers, taken integral here. A \<open>Date\<close> holds a time value
  of at most 8.64e15 milliseconds either side of the epoch; beyond that \<open>dayjs(t)\<close> is an
  Invalid Date. A dayjs object is \<open>Some\<close> of its time value, or \<open>None\<close> when invalid; a
  number read off it is \<open>Some\<close> integer, or \<open>None\<close> for \<open>NaN\<close>.
\<close>

definition valid_instant :: "int \<Rightarrow> bool" where
  "valid_instant t = (- 8640000000000000 \<le> t \<and> t \<le> 8640000000000000)"

definition dayjs :: "int \<Rightarrow> int option" where
  "dayjs t = (if valid_instant t then Some t else None)"

definition dayjs_valueOf :: "int option \<Rightarrow> int option" where
  "dayjs_valueOf d = d"

definition dayjs_unix :: "int option \<Rightarrow> int option" where
  "dayjs_unix d = (case d of None \<Rightarrow> None | Some t \<Rightarrow> Some (t div 1000))"

definition String_number :: "int option \<Rightarrow> string" where
  "String_number n = (case n of None \<Rightarrow> ''NaN'' | Some i \<Rightarrow> js_String i)"

text \<open>
  \<open>startOf('day')\<close> and \<open>endOf('day')\<close> set the hours of the date, which may leave the
  range; \<open>format\<close> prints \<open>Invalid Date\<close> for an invalid object.
\<close>

definition dayjs_startOf_day :: "dayjs_env \<Rightarrow> int option \<Rightarrow> int option" where
  "dayjs_startOf_day env d = (case d of None \<Rightarrow> None | Some t \<Rightarrow> dayjs (startOf_day env t))"

definition dayjs_endOf_day :: "dayjs_env \<Rightarrow> int option \<Rightarrow> int option" where
  "dayjs_endOf_day env d = (case d of None \<Rightarrow> None | Some t \<Rightarrow> dayjs (endOf_day env t))"

definition dayjs_format_YMD :: "dayjs_env \<Rightarrow> int option \<Rightarrow> string" where
  "dayjs_format_YMD env d =
     (case d of None \<Rightarrow> ''Invalid Date'' | Some t \<Rightarrow> format_YMD env t)"

definition dayjs_utc_format_YMDHMS :: "dayjs_env \<Rightarrow> int option \<Rightarrow> string" where
  "dayjs_utc_format_YMDHMS env d =
     (case d of None \<Rightarrow> ''Invalid Date'' | Some t \<Rightarrow> utc_format_YMDHMS env t)"

text \<open>
  \<open>this.diff(input, 'day')\<close>: the distance in milliseconds, corrected by the change of
  offset between the two instants, in days, truncated towards zero; \<open>NaN\<close> when either
  date is invalid. The builders only compare the result with 1, and \<open>NaN >= 1\<close> is
  false; the rounding of floating-point numbers beyond \<open>2^53\<close> does not change that
  comparison, so the day count is kept an exact integer.
\<close>

definition absFloor_div :: "int \<Rightarrow> int \<Rightarrow> int" where
  "absFloor_div n d = (if n < 0 then - ((- n) div d) else n div d)"

definition diff_day :: "dayjs_env \<Rightarrow> int option \<Rightarrow> int \<Rightarrow> int option" where
  "diff_day env this input =
     (case this of
        None \<Rightarrow> None
      | Some this_ms \<Rightarrow>
          (case dayjs input of
             None \<Rightarrow> None
           | Some that_ms \<Rightarrow>
               let zoneDelta = (utcOffset env that_ms - utcOffset env this_ms) * 60000;
                   diff = this_ms - that_ms
               in Some (absFloor_div (diff - zoneDelta) 86400000)))"

definition number_ge :: "int option \<Rightarrow> int \<Rightarrow> bool" where
  "number_ge n k = (case n of None \<Rightarrow> False | Some i \<Rightarrow> k \<le> i)"

section \<open>The long-table builder\<close>

text \<open>
  Class \<open>WarehouseInsightsSqlBuilder\<close>. Each method takes what it reads: the dayjs
  environment, the application list that \<open>getWarehouseApplications()\<close> returns, and the
  query of the builder.
\<close>

definition long_getApplication ::
  "warehouse_application list \<Rightarrow> 'v query \<Rightarrow> error + warehouse_application" where
  "long_getApplication apps q =
     (let name = insightId q in
      case find (\<lambda>app. app_name app = name) apps of
        None \<Rightarrow> Inl (Error (''Application '' @ name @ '' not found''))
      | Some application \<Rightarrow> Inr application)"

definition long_getEventTable ::
  "warehouse_application list \<Rightarrow> 'v query \<Rightarrow> error + event_table" where
  "long_getEventTable apps q =
     ebind (long_getApplication apps q) (\<lambda>app. Inr (eventTable app))"

definition long_getEventParametersTable ::
  "warehouse_application list \<Rightarrow> 'v query \<Rightarrow> error + event_parameters_table" where
  "long_getEventParametersTable apps q =
     ebind (long_getApplication apps q) (\<lambda>app. Inr (eventParametersTable app))"

definition long_enableDateBasedOptimizedEventTable ::
  "dayjs_env \<Rightarrow> warehouse_application list \<Rightarrow> 'v query \<Rightarrow> error + bool" where
  "long_enableDateBasedOptimizedEventTable env apps q =
     ebind (long_getEventTable apps q) (\<lambda>eventTable.
       Inr (truthy (et_dateBasedCreatedAtField eventTable)
            \<and> number_ge (diff_day env (dayjs (endAt (time q))) (startAt (time q))) 1))"

definition long_buildOptimizedDateRangeQuery ::
  "dayjs_env \<Rightarrow> warehouse_application list \<Rightarrow> 'v query \<Rightarrow> error + 'v sql" where
  "long_buildOptimizedDateRangeQuery env apps q =
     ebind (long_getEventTable apps q) (\<lambda>eventTable.
     ebind (long_enableDateBasedOptimizedEventTable env apps q)
       (\<lambda>enableDateBasedOptimizedEventTable.
     let type = et_createdAtFieldType eventTable;
         startTime0 = String_number (dayjs_valueOf (dayjs (startAt (time q))));
         endTime0 = String_number (dayjs_valueOf (dayjs (endAt (time q))));
         field =
           (if enableDateBasedOptimizedEventTable
            then dq @ et_name eventTable @ dq @ ''.'' @ dq
                 @ nullish_or (et_dateBasedCreatedAtField eventTable)
                     (et_createdAtField eventTable) @ dq
            else dq @ et_name eventTable @ dq @ ''.'' @ dq
                 @ et_createdAtField eventTable @ dq)
     in
     ebind (long_enableDateBasedOptimizedEventTable env apps q) (\<lambda>enabled.
     let (startTime, endTime) =
           (if enabled
            then (dayjs_format_YMD env (dayjs_startOf_day env (dayjs (startAt (time q)))),
                  dayjs_format_YMD env (dayjs_endOf_day env (dayjs (endAt (time q)))))
            else
              let (s1, e1) =
                    (if type = ''timestamp''
                     then (String_number (dayjs_unix (dayjs (startAt (time q)))),
                           String_number (dayjs_unix (dayjs (endAt (time q)))))
                     else (startTime0, endTime0));
                  (s2, e2) =
                    (if type = ''date''
                     then (dayjs_format_YMD env
                             (dayjs_startOf_day env (dayjs (startAt (time q)))),
                           dayjs_format_YMD env
                             (dayjs_endOf_day env (dayjs (endAt (time q)))))
                     else (s1, e1))
              in (if type = ''datetime''
                  then (dayjs_utc_format_YMDHMS env (dayjs (startAt (time q))),
                        dayjs_utc_format_YMDHMS env (dayjs (endAt (time q))))
                  else (s2, e2)))
     in Inr (sql_tpl [raw field, raw '' BETWEEN '', bound (BStr startTime),
                      raw '' AND '', bound (BStr endTime)]))))"

definition long_buildOptimizedDateQuerySql ::
  "dayjs_env \<Rightarrow> warehouse_application list \<Rightarrow> 'v query \<Rightarrow> error + 'v sql" where
  "long_buildOptimizedDateQuerySql env apps q =
     (let unit = time_unit (time q);
          timezone = (case time_timezone (time q) of None \<Rightarrow> ''UTC'' | Some z \<Rightarrow> z)
      in
      ebind (long_getEventTable apps q) (\<lambda>eventTable.
      ebind (long_enableDateBasedOptimizedEventTable env apps q) (\<lambda>enabled.
      if enabled \<and> truthy (et_dateBasedCreatedAtField eventTable)
      then
        let field = dq @ et_name eventTable @ dq @ ''.'' @ dq
                    @ tpl_string (et_dateBasedCreatedAtField eventTable) @ dq;
            format = format_text unit
        in Inr (sql_tpl [raw ''DATE_FORMAT('', raw field, raw ('', '' @ sq), raw format,
                         raw (sq @ '') date'')])
      else
        ebind (long_getDateQuery
                 (dq @ et_name eventTable @ dq @ ''.'' @ dq @ et_createdAtField eventTable @ dq)
                 unit timezone (Some (et_createdAtFieldType eventTable)))
          (\<lambda>dateQuery. Inr (sql_tpl [dateQuery, raw '' date''])))))"

definition long_buildDateQuerySql ::
  "dayjs_env \<Rightarrow> warehouse_application list \<Rightarrow> 'v query \<Rightarrow> error + 'v sql" where
  "long_buildDateQuerySql env apps q = long_buildOptimizedDateQuerySql env apps q"

text \<open>
  \<open>buildCommonFilterQueryOperator\<close> belongs to the shared base class, which is not
  among the sources: the filter compiler is a parameter \<open>common\<close> (it may throw), and so
  is \<open>toStr\<close>, the conversion of a filter value inside a template literal.
\<close>

type_synonym 'v filter_compiler = "string \<Rightarrow> string \<Rightarrow> 'v \<Rightarrow> 'v sql \<Rightarrow> error + 'v sql"

text \<open>A loop that pushes one result per element and stops at the first throw.\<close>

fun emap :: "('a \<Rightarrow> error + 'b) \<Rightarrow> 'a list \<Rightarrow> error + 'b list" where
  "emap f [] = Inr []"
| "emap f (x # xs) = ebind (f x) (\<lambda>y. ebind (emap f xs) (\<lambda>ys. Inr (y # ys)))"

definition long_getValueField ::
  "warehouse_application list \<Rightarrow> 'v query \<Rightarrow> string \<Rightarrow> error + 'v sql" where
  "long_getValueField apps q type =
     ebind (long_getEventParametersTable apps q) (\<lambda>eventParametersTable.
       Inr (if type = ''number''
            then sql_tpl [raw dq, raw (ept_name eventParametersTable), raw (dq @ ''.'' @ dq),
                          raw (nullish_or (paramsValueNumberField eventParametersTable)
                                 (paramsValueField eventParametersTable)), raw dq]
            else if type = ''string''
            then sql_tpl [raw dq, raw (ept_name eventParametersTable), raw (dq @ ''.'' @ dq),
                          raw (nullish_or (paramsValueStringField eventParametersTable)
                                 (paramsValueField eventParametersTable)), raw dq]
            else if type = ''date''
            then sql_tpl [raw dq, raw (ept_name eventParametersTable), raw (dq @ ''.'' @ dq),
                          raw (nullish_or (paramsValueDateField eventParametersTable)
                                 (paramsValueField eventParametersTable)), raw dq]
            else sql_tpl [raw dq, raw (ept_name eventParametersTable), raw (dq @ ''.'' @ dq),
                          raw (paramsValueField eventParametersTable), raw dq]))"

definition long_buildFilterQueryOperator ::
  "'v filter_compiler \<Rightarrow> warehouse_application list \<Rightarrow> 'v query
     \<Rightarrow> string \<Rightarrow> string \<Rightarrow> 'v \<Rightarrow> error + 'v sql" where
  "long_buildFilterQueryOperator common apps q type operator val =
     ebind (long_getValueField apps q type) (\<lambda>valueField.
       common type operator val valueField)"

text \<open>The callback of \<open>metrics.map\<close>, then the method.\<close>

definition long_select_item :: "event_table \<Rightarrow> metric \<Rightarrow> 'v sql option" where
  "long_select_item table item =
     (if m_math item = ''events''
      then (if m_name item = ''$all_event''
            then Some (sql_tpl [raw (''count(1) as '' @ dq @ ''$all_event'' @ dq)])
            else Some (sql_tpl
              [raw (''sum(case WHEN '' @ dq), raw (et_name table),
               raw (dq @ ''.'' @ dq), raw (eventNameField table),
               raw (dq @ '' = ''), bound (BStr (m_name item)),
               raw '' THEN 1 ELSE 0 END) as '', raw (dq @ m_name item @ dq)]))
      else None)"

definition long_buildSelectQueryArr ::
  "warehouse_application list \<Rightarrow> 'v query \<Rightarrow> error + 'v sql option list" where
  "long_buildSelectQueryArr apps q =
     ebind (long_getEventTable apps q) (\<lambda>eventTable.
       Inr (map (long_select_item eventTable) (metrics q)))"

text \<open>The body of the loop over the groups, then the loop.\<close>

definition long_group_columns ::
  "'v filter_compiler \<Rightarrow> ('v \<Rightarrow> string) \<Rightarrow> warehouse_application list \<Rightarrow> 'v query
     \<Rightarrow> 'v group_info \<Rightarrow> error + 'v sql list" where
  "long_group_columns common toStr apps q g =
     (case customGroups g of
        None \<Rightarrow>
          ebind (long_getValueField apps q (g_type g)) (\<lambda>valueField.
            Inr [sql_tpl [valueField, raw ('' as '' @ dq @ ''%''), raw (g_value g), raw dq]])
      | Some cgs \<Rightarrow>
          if length cgs > 0
          then emap (\<lambda>cg.
                 ebind (long_buildFilterQueryOperator common apps q (g_type g)
                          (filterOperator cg) (filterValue cg))
                   (\<lambda>predicate.
                     Inr (sql_tpl [predicate, raw ('' as '' @ dq @ ''%''),
                            raw (g_value g @ ''|'' @ filterOperator cg @ ''|''
                                 @ toStr (filterValue cg)),
                            raw dq])))
                 cgs
          else Inr [])"

definition long_buildGroupSelectQueryArr ::
  "'v filter_compiler \<Rightarrow> ('v \<Rightarrow> string) \<Rightarrow> warehouse_application list \<Rightarrow> 'v query
     \<Rightarrow> error + 'v sql list" where
  "long_buildGroupSelectQueryArr common toStr apps q =
     (if length (groups q) > 0
      then ebind (emap (long_group_columns common toStr apps q) (groups q))
             (\<lambda>columns. Inr (concat columns))
      else Inr [])"

text \<open>The callback that gives a metric's event-name condition, then the method.\<close>

definition long_where_item :: "event_table \<Rightarrow> metric \<Rightarrow> 'v sql" where
  "long_where_item table item =
     (if m_name item = ''$all_event''
      then sql_tpl [raw ''1 = 1'']
      else sql_tpl [raw dq, raw (et_name table), raw (dq @ ''.'' @ dq),
                    raw (eventNameField table), raw (dq @ '' = ''),
                    bound (BStr (m_name item))])"

definition long_buildWhereQueryArr ::
  "dayjs_env \<Rightarrow> warehouse_application list \<Rightarrow> 'v query \<Rightarrow> error + 'v sql list" where
  "long_buildWhereQueryArr env apps q =
     ebind (long_getEventTable apps q) (\<lambda>eventTable.
     ebind (long_buildOptimizedDateRangeQuery env apps q) (\<lambda>dateRange.
     ebind (join (map (long_where_item eventTable) (metrics q)) '' OR '' ''('' '')'')
       (\<lambda>eventName. Inr [dateRange, eventName])))"

section \<open>The application list and its cache\<close>

text \<open>
  \<open>getWarehouseApplications\<close> of the long-table module keeps the parsed list in the
  module variable \<open>applications\<close>, \<open>null\<close> at first. The state is that variable; a call
  takes it and returns it updated, beside its outcome. \<open>parse\<close> stands for
  \<open>JSON.parse\<close> followed by the schema's \<open>parse\<close> (either may throw), and
  \<open>applicationsJson\<close> for the environment's setting at the time of the call. An array,
  also an empty one, is truthy.
\<close>

definition getWarehouseApplications ::
  "(string \<Rightarrow> error + warehouse_application list) \<Rightarrow> string option
     \<Rightarrow> warehouse_application list option
     \<Rightarrow> (error + warehouse_application list) \<times> warehouse_application list option" where
  "getWarehouseApplications parse applicationsJson applications =
     (case applications of
        None \<Rightarrow>
          (case parse (if truthy applicationsJson then tpl_string applicationsJson else ''[]'') of
             Inl e \<Rightarrow> (Inl e, None)
           | Inr parsed \<Rightarrow> (Inr parsed, Some parsed))
      | Some cached \<Rightarrow> (Inr cached, Some cached))"

text \<open>A sequence of calls, one per setting of the environment, threading the state.\<close>

fun getWarehouseApplications_calls ::
  "(string \<Rightarrow> error + warehouse_application list) \<Rightarrow> string option list
     \<Rightarrow> warehouse_application list option
     \<Rightarrow> (error + warehouse_application list) list" where
  "getWarehouseApplications_calls parse [] applications = []"
| "getWarehouseApplications_calls parse (j # js) applications =
     (case getWarehouseApplications parse j applications of
        (r, applications') \<Rightarrow> r # getWarehouseApplications_calls parse js applications')"

section \<open>The wide-table builder\<close>

text \<open>Class \<open>WarehouseWideTableInsightsSqlBuilder\<close>, over the wide-table module's list.\<close>

definition wide_getApplication ::
  "wide_application list \<Rightarrow> 'v query \<Rightarrow> error + wide_application" where
  "wide_getApplication apps q =
     (let name = insightId q in
      case find (\<lambda>app. w_name app = name \<and> w_type app = ''wideTable'') apps of
        None \<Rightarrow> Inl (Error (''Application '' @ name @ '' not found''))
      | Some application \<Rightarrow> Inr application)"

definition wide_enableDateBasedOptimizedEventTable ::
  "dayjs_env \<Rightarrow> wide_application list \<Rightarrow> 'v query \<Rightarrow> error + bool" where
  "wide_enableDateBasedOptimizedEventTable env apps q =
     ebind (wide_getApplication apps q) (\<lambda>application.
       Inr (truthy (dateBasedCreatedAtField application)
            \<and> number_ge (diff_day env (dayjs (endAt (time q))) (startAt (time q))) 1))"

definition wide_buildOptimizedDateRangeQuery ::
  "dayjs_env \<Rightarrow> wide_application list \<Rightarrow> 'v query \<Rightarrow> error + 'v sql" where
  "wide_buildOptimizedDateRangeQuery env apps q =
     ebind (wide_getApplication apps q) (\<lambda>application.
     ebind (wide_enableDateBasedOptimizedEventTable env apps q)
       (\<lambda>enableDateBasedOptimizedEventTable.
     let type = createdAtFieldType application;
         startTime0 = String_number (dayjs_valueOf (dayjs (startAt (time q))));
         endTime0 = String_number (dayjs_valueOf (dayjs (endAt (time q))));
         field =
           (if enableDateBasedOptimizedEventTable
            then dq @ nullish_or (dateBasedCreatedAtField application)
                        (createdAtField application) @ dq
            else dq @ createdAtField application @ dq)
     in
     ebind (wide_enableDateBasedOptimizedEventTable env apps q) (\<lambda>enabled.
     let (startTime, endTime) =
           (if enabled
            then (dayjs_format_YMD env (dayjs_startOf_day env (dayjs (startAt (time q)))),
                  dayjs_format_YMD env (dayjs_endOf_day env (dayjs (endAt (time q)))))
            else
              let (s1, e1) =
                    (if type = ''timestamp''
                     then (String_number (dayjs_unix (dayjs (startAt (time q)))),
                           String_number (dayjs_unix (dayjs (endAt (time q)))))
                     else (startTime0, endTime0));
                  (s2, e2) =
                    (if type = ''date''
                     then (dayjs_format_YMD env
                             (dayjs_startOf_day env (dayjs (startAt (time q)))),
                           dayjs_format_YMD env
                             (dayjs_endOf_day env (dayjs (endAt (time q)))))
                     else (s1, e1))
              in (if type = ''datetime''
                  then (dayjs_utc_format_YMDHMS env (dayjs (startAt (time q))),
                        dayjs_utc_format_YMDHMS env (dayjs (endAt (time q))))
                  else (s2, e2)))
     in Inr (sql_tpl [raw field, raw '' BETWEEN '', bound (BStr startTime),
                      raw '' AND '', bound (BStr endTime)]))))"

definition wide_buildOptimizedDateQuerySql ::
  "dayjs_env \<Rightarrow> wide_application list \<Rightarrow> 'v query \<Rightarrow> error + 'v sql" where
  "wide_buildOptimizedDateQuerySql env apps q =
     (let unit = time_unit (time q);
          timezone = (case time_timezone (time q) of None \<Rightarrow> ''UTC'' | Some z \<Rightarrow> z)
      in
      ebind (wide_getApplication apps q) (\<lambda>application.
      ebind (wide_enableDateBasedOptimizedEventTable env apps q) (\<lambda>enabled.
      if enabled \<and> truthy (dateBasedCreatedAtField application)
      then
        let field = dq @ tpl_string (dateBasedCreatedAtField application) @ dq;
            format = format_text unit
        in Inr (sql_tpl [raw ''DATE_FORMAT('', raw field, raw ('', '' @ sq), raw format,
                         raw (sq @ '') date'')])
      else
        ebind (wide_getDateQuery (dq @ createdAtField application @ dq)
                 unit timezone (Some (createdAtFieldType application)))
          (\<lambda>dateQuery. Inr (sql_tpl [dateQuery, raw '' date''])))))"

definition wide_buildDateQuerySql ::
  "dayjs_env \<Rightarrow> wide_application list \<Rightarrow> 'v query \<Rightarrow> error + 'v sql" where
  "wide_buildDateQuerySql env apps q = wide_buildOptimizedDateQuerySql env apps q"

text \<open>The callback of \<open>metrics.map\<close>, then the method.\<close>

definition wide_select_item :: "wide_application \<Rightarrow> metric \<Rightarrow> 'v sql option" where
  "wide_select_item application item =
     (if m_math item = ''events''
      then (if m_name item = ''$all_event''
            then Some (sql_tpl [raw (''count(1) as '' @ dq @ ''$all_event'' @ dq)])
            else Some (sql_tpl [raw (''count('' @ dq), raw (m_name item),
                                raw (dq @ '') as '' @ dq), raw (m_name item), raw dq]))
      else if m_math item = ''sessions''
      then (if m_name item = ''$all_event''
            then Some (sql_tpl [raw (''count(distinct '' @ dq),
                                raw (distinctField application),
                                raw (dq @ '') as '' @ dq @ ''$all_event'' @ dq)])
            else Some (sql_tpl [raw (''count(distinct case WHEN '' @ dq),
                                raw (m_name item), raw (dq @ '' = ''),
                                bound (BStr (m_name item)), raw ('' THEN '' @ dq),
                                raw (distinctField application),
                                raw (dq @ '' END) as ''),
                                raw (dq @ m_name item @ dq)]))
      else None)"

definition wide_buildSelectQueryArr ::
  "wide_application list \<Rightarrow> 'v query \<Rightarrow> error + 'v sql option list" where
  "wide_buildSelectQueryArr apps q =
     ebind (wide_getApplication apps q) (\<lambda>application.
       Inr (map (wide_select_item application) (metrics q)))"

definition wide_buildWhereQueryArr ::
  "'v filter_compiler \<Rightarrow> dayjs_env \<Rightarrow> wide_application list \<Rightarrow> 'v query
     \<Rightarrow> error + 'v sql list" where
  "wide_buildWhereQueryArr common env apps q =
     ebind (wide_buildOptimizedDateRangeQuery env apps q) (\<lambda>dateRange.
     ebind (emap (\<lambda>filter.
                    common (f_type filter) (f_operator filter) (f_value filter)
                      (sql_tpl [raw dq, raw (f_name filter), raw dq]))
              (filters q))
       (\<lambda>conditions. Inr (dateRange # conditions)))"

definition wide_group_columns ::
  "'v filter_compiler \<Rightarrow> ('v \<Rightarrow> string) \<Rightarrow> 'v group_info \<Rightarrow> error + 'v sql list" where
  "wide_group_columns common toStr g =
     (case customGroups g of
        None \<Rightarrow>
          Inr [sql_tpl [raw (g_value g), raw ('' as '' @ dq @ ''%''), raw (g_value g), raw dq]]
      | Some cgs \<Rightarrow>
          if length cgs > 0
          then emap (\<lambda>cg.
                 ebind (common (g_type g) (filterOperator cg) (filterValue cg)
                          (sql_tpl [raw dq, raw (g_value g), raw dq]))
                   (\<lambda>predicate.
                     Inr (sql_tpl [predicate, raw ('' as '' @ dq @ ''%''),
                            raw (g_value g @ ''|'' @ filterOperator cg @ ''|''
                                 @ toStr (filterValue cg)),
                            raw dq])))
                 cgs
          else Inr [])"

definition wide_buildGroupSelectQueryArr ::
  "'v filter_compiler \<Rightarrow> ('v \<Rightarrow> string) \<Rightarrow> 'v query \<Rightarrow> error + 'v sql list" where
  "wide_buildGroupSelectQueryArr common toStr q =
     (if length (groups q) > 0
      then ebind (emap (wide_group_columns common toStr) (groups q))
             (\<lambda>columns. Inr (concat columns))
      else Inr [])"

section \<open>Dispatch of the events listing\<close>

text \<open>
  \<open>queryWarehouseEvents\<close>. \<open>findWarehouseApplication\<close> and the builders' \<open>queryEvents\<close> are
  not among the sources and are parameters: the lookup gives an application or nothing
  (or fails, and the \<open>await\<close> passes the failure on), and each \<open>queryEvents\<close> takes the query,
  the context and the cursor.
\<close>

record query_context =
  ctx_timezone :: string

definition queryWarehouseEvents ::
  "(string \<Rightarrow> string \<Rightarrow> error + wide_application option)
     \<Rightarrow> ('v query \<Rightarrow> query_context \<Rightarrow> string option \<Rightarrow> error + 'r)
     \<Rightarrow> ('v query \<Rightarrow> query_context \<Rightarrow> string option \<Rightarrow> error + 'r)
     \<Rightarrow> 'v query \<Rightarrow> query_context \<Rightarrow> error + 'r" where
  "queryWarehouseEvents findWarehouseApplication wide_queryEvents long_queryEvents q ctx =
     ebind (findWarehouseApplication (workspaceId q) (insightId q)) (\<lambda>application.
       if (case application of None \<Rightarrow> False | Some a \<Rightarrow> w_type a = ''wideTable'')
       then wide_queryEvents q ctx (cursor q)
       else long_queryEvents q ctx (cursor q))"

section \<open>A server in UTC\<close>

text \<open>
  The dayjs environment of a server whose time zone is UTC, to evaluate the builders on
  concrete queries: the proleptic Gregorian calendar, days counted from 1970-01-01.
\<close>

definition pad0 :: "nat \<Rightarrow> int \<Rightarrow> string" where
  "pad0 w i = (let s = js_String i in replicate (w - length s) CHR ''0'' @ s)"

definition civil_date :: "int \<Rightarrow> int \<times> int \<times> int" where
  "civil_date days =
     (let shifted = days + 719468;
          era = shifted div 146097;
          day_of_era = shifted mod 146097;
          year_of_era =
            (day_of_era - day_of_era div 1460 + day_of_era div 36524
               - day_of_era div 146096) div 365;
          day_of_year =
            day_of_era - (365 * year_of_era + year_of_era div 4 - year_of_era div 100);
          march_month = (5 * day_of_year + 2) div 153;
          day = day_of_year - (153 * march_month + 2) div 5 + 1;
          month = (if march_month < 10 then march_month + 3 else march_month - 9);
          year = year_of_era + era * 400 + (if month \<le> 2 then 1 else 0)
      in (year, month, day))"

definition utc_YMD :: "int \<Rightarrow> string" where
  "utc_YMD t =
     (case civil_date (t div 86400000) of
        (y, m, d) \<Rightarrow> pad0 4 y @ ''-'' @ pad0 2 m @ ''-'' @ pad0 2 d)"

definition utc_HMS :: "int \<Rightarrow> string" where
  "utc_HMS t =
     (let s = (t mod 86400000) div 1000
      in pad0 2 (s div 3600) @ '':'' @ pad0 2 ((s mod 3600) div 60) @ '':'' @ pad0 2 (s mod 60))"

definition utc_dayjs :: dayjs_env where
  "utc_dayjs =
     \<lparr> utcOffset = (\<lambda>t. 0),
       startOf_day = (\<lambda>t. t - t mod 86400000),
       endOf_day = (\<lambda>t. t - t mod 86400000 + 86399999),
       format_YMD = utc_YMD,
       utc_format_YMDHMS = (\<lambda>t. utc_YMD t @ '' '' @ utc_HMS t) \<rparr>"

section \<open>A server in New York\<close>

text \<open>
  The dayjs environment of a server in New York (zone America/New York) during 2025: five hours
  behind UTC, four from 9 March 07:00 UTC to 2 November 06:00 UTC.
\<close>

definition eastern_utcOffset :: "int \<Rightarrow> int" where
  "eastern_utcOffset t = (if 1741503600000 \<le> t \<and> t < 1762063200000 then - 240 else - 300)"

definition eastern_local :: "int \<Rightarrow> int" where
  "eastern_local t = t + eastern_utcOffset t * 60000"

definition eastern_instant :: "int \<Rightarrow> int" where
  "eastern_instant wall =
     (if eastern_utcOffset (wall + 300 * 60000) = - 300 then wall + 300 * 60000
      else wall + 240 * 60000)"

definition eastern_dayjs :: dayjs_env where
  "eastern_dayjs =
     \<lparr> utcOffset = eastern_utcOffset,
       startOf_day = (\<lambda>t. eastern_instant (eastern_local t - eastern_local t mod 86400000)),
       endOf_day =
         (\<lambda>t. eastern_instant (eastern_local t - eastern_local t mod 86400000 + 86399999)),
       format_YMD = (\<lambda>t. utc_YMD (eastern_local t)),
       utc_format_YMDHMS = (\<lambda>t. utc_YMD t @ '' '' @ utc_HMS t) \<rparr>"

section \<open>The specification's notions\<close>

text \<open>
  The requested window spans at least one full day: its end is 24 hours or more after
  its start.
\<close>

definition window_spans_full_day :: "time_range \<Rightarrow> bool" where
  "window_spans_full_day t = (86400000 \<le> endAt t - startAt t)"

text \<open>
  The alias convention: \<open>%\<close> and the group value, or \<open>%\<close> and group value, operator
  and literal value separated by \<open>|\<close>, one alias per custom group.
\<close>

definition group_aliases :: "('v \<Rightarrow> string) \<Rightarrow> 'v group_info \<Rightarrow> string list" where
  "group_aliases toStr g =
     (case customGroups g of
        None \<Rightarrow> [''%'' @ g_value g]
      | Some cgs \<Rightarrow>
          map (\<lambda>cg. ''%'' @ g_value g @ ''|'' @ filterOperator cg @ ''|''
                     @ toStr (filterValue cg)) cgs)"

text \<open>A column is aliased: its text ends with \<open>as\<close> and the alias in double quotes.\<close>

definition has_alias :: "'v sql \<Rightarrow> string \<Rightarrow> bool" where
  "has_alias column alias = (\<exists>expr. column = sql_app expr (raw ('' as '' @ dq @ alias @ dq)))"

text \<open>A disjunction of \<open>n\<close> conditions that are each the tautology \<open>1 = 1\<close>.\<close>

fun tautologies :: "nat \<Rightarrow> string" where
  "tautologies 0 = []"
| "tautologies (Suc 0) = ''1 = 1''"
| "tautologies (Suc (Suc n)) = ''1 = 1 OR '' @ tautologies (Suc n)"

section \<open>An example configuration and query\<close>

text \<open>
  The configuration and the query of the builder's test, with a date-based column added,
  and a wide-table application of the same name.
\<close>


definition example_application :: warehouse_application where
  "example_application =
     \<lparr> app_name = ''test'', app_type = ''longTable'',
       eventTable =
         \<lparr> et_name = ''events'', eventNameField = ''event_name'',
           et_createdAtField = ''event_timestamp'', et_createdAtFieldType = ''timestampMs'',
           et_dateBasedCreatedAtField = Some ''event_date'' \<rparr>,
       eventParametersTable =
         \<lparr> ept_name = ''event_parameters'', paramsNameField = ''event_param_key'',
           paramsValueField = ''event_param_value'', paramsValueNumberField = None,
           paramsValueStringField = None, paramsValueDateField = None,
           ept_createdAtField = ''event_timestamp'', ept_createdAtFieldType = ''timestampMs'',
           ept_dateBasedCreatedAtField = None \<rparr> \<rparr>"

definition example_wide_application :: wide_application where
  "example_wide_application =
     \<lparr> w_name = ''test'', w_type = ''wideTable'', tableName = ''events_wide'',
       createdAtField = ''created_at'', createdAtFieldType = ''timestampMs'',
       dateBasedCreatedAtField = Some ''created_date'', distinctField = ''session_id'',
       databaseUrl = ''mysql://warehouse/analytics'' \<rparr>"

definition example_query :: "string query" where
  "example_query =
     \<lparr> insightId = ''test'', workspaceId = [],
       metrics = [\<lparr> m_name = ''$all_event'', m_math = ''events'' \<rparr>],
       filters = [], groups = [],
       time = \<lparr> startAt = 1754006400000, endAt = 1754092800000, time_unit = ''day'',
                time_timezone = None \<rparr>,
       cursor = None \<rparr>"

text \<open>A filter compiler to evaluate examples with: two operators, and a throw for others.\<close>

definition example_common :: "string filter_compiler" where
  "example_common type operator val field =
     (if operator = ''equals'' then Inr (sql_tpl [field, raw '' = '', bound (BVal val)])
      else if operator = ''greater than''
        then Inr (sql_tpl [field, raw '' > '', bound (BVal val)])
      else Inl (Error (''Unsupported operator: '' @ operator)))"

definition example_groups :: "string group_info list" where
  "example_groups =
     [\<lparr> g_value = ''country'', g_type = ''string'', customGroups = None \<rparr>,
      \<lparr> g_value = ''age'', g_type = ''number'',
        customGroups = Some [\<lparr> filterOperator = ''greater than'', filterValue = ''18'' \<rparr>,
                             \<lparr> filterOperator = ''equals'', filterValue = ''65'' \<rparr>] \<rparr>]"

text \<open>A parser to evaluate examples with: it accepts the empty array only.\<close>

definition example_parse :: "string \<Rightarrow> error + warehouse_application list" where
  "example_parse s = (if s = ''[]'' then Inr [] else Inl (Error ''Unexpected token''))"

text \<open>A lookup and two \<open>queryEvents\<close> that tell which builder ran, for examples.\<close>

definition example_find :: "string \<Rightarrow> string \<Rightarrow> error + wide_application option" where
  "example_find workspace name =
     Inr (find (\<lambda>app. w_name app = name)
            [example_wide_application,
             example_wide_application\<lparr>w_name := ''legacy'', w_type := ''longTable''\<rparr>])"

definition example_wide_queryEvents ::
  "string query \<Rightarrow> query_context \<Rightarrow> string option \<Rightarrow> error + string" where
  "example_wide_queryEvents q ctx c = Inr ''wide-table builder''"

definition example_long_queryEvents ::
  "string query \<Rightarrow> query_context \<Rightarrow> string option \<Rightarrow> error + string" where
  "example_long_queryEvents q ctx c = Inr ''long-table builder''"

section \<open>Basic facts\<close>

subsection \<open>Templates\<close>

lemma sql_tpl_Nil: "sql_tpl [] = raw []"
  by (simp add: sql_tpl_def)

lemma sql_tpl_Cons: "sql_tpl (p # ps) = sql_app p (sql_tpl ps)"
  by (simp add: sql_tpl_def)

lemma sql_text_app: "sql_text (sql_app a b) = sql_text a @ sql_text b"
  by (simp add: sql_app_def)

lemma sql_values_app: "sql_values (sql_app a b) = sql_values a @ sql_values b"
  by (simp add: sql_app_def)

lemma sql_text_raw: "sql_text (raw s) = s"
  by (simp add: raw_def)

lemma sql_values_raw: "sql_values (raw s) = []"
  by (simp add: raw_def)

lemma sql_text_bound: "sql_text (bound v) = ''?''"
  by (simp add: bound_def)

lemma sql_values_bound: "sql_values (bound v) = [v]"
  by (simp add: bound_def)

lemmas sql_simps =
  sql_tpl_Nil sql_tpl_Cons sql_text_app sql_values_app sql_text_raw sql_values_raw
  sql_text_bound sql_values_bound

lemma format_text_own:
  "map_of MYSQL_DATE_FORMATS unit = Some fmt \<Longrightarrow> format_text unit = fmt"
  by (simp add: format_text_def)

lemma in_MYSQL_DATE_FORMATS_own:
  "map_of MYSQL_DATE_FORMATS unit = Some fmt \<Longrightarrow> in_MYSQL_DATE_FORMATS unit"
  by (auto simp: in_MYSQL_DATE_FORMATS_def MYSQL_DATE_FORMATS_def split: if_splits)

subsection \<open>The date-based optimisation\<close>

lemma absFloor_div_ge_1: "0 < d \<Longrightarrow> (1 \<le> absFloor_div n d) = (d \<le> n)"
proof -
  assume d: "0 < d"
  show ?thesis
  proof (cases "n < 0")
    case True
    then have "0 \<le> (- n) div d" using d by (simp add: pos_imp_zdiv_nonneg_iff)
    with True d show ?thesis by (simp add: absFloor_div_def)
  next
    case False
    have "(0 < n div d) = (d \<le> n)"
      using d by (rule pos_imp_zdiv_pos_iff)
    moreover have "(1 \<le> n div d) = (0 < n div d)"
      by arith
    ultimately show ?thesis
      using False by (simp add: absFloor_div_def)
  qed
qed

lemma number_ge_diff_day:
  "number_ge (diff_day env (dayjs e) s) 1
     = (valid_instant s \<and> valid_instant e
        \<and> 86400000 \<le> (e - s) - (utcOffset env s - utcOffset env e) * 60000)"
  by (simp add: number_ge_def diff_day_def dayjs_def Let_def absFloor_div_ge_1)

lemma ebind_Inr: "ebind (Inr x) f = f x"
  by (simp add: ebind_def)

lemma ebind_Inl: "ebind (Inl e) f = Inl e"
  by (simp add: ebind_def)

lemma day_bound_start:
  "valid_instant s \<Longrightarrow>
   dayjs_format_YMD env (dayjs_startOf_day env (dayjs s))
     = (if valid_instant (startOf_day env s) then format_YMD env (startOf_day env s)
        else ''Invalid Date'')"
  by (simp add: dayjs_format_YMD_def dayjs_startOf_day_def dayjs_def)

lemma day_bound_end:
  "valid_instant e \<Longrightarrow>
   dayjs_format_YMD env (dayjs_endOf_day env (dayjs e))
     = (if valid_instant (endOf_day env e) then format_YMD env (endOf_day env e)
        else ''Invalid Date'')"
  by (simp add: dayjs_format_YMD_def dayjs_endOf_day_def dayjs_def)

lemma long_enable:
  assumes "long_getApplication apps q = Inr app"
  shows "long_enableDateBasedOptimizedEventTable env apps q
     = Inr (truthy (et_dateBasedCreatedAtField (eventTable app))
            \<and> number_ge (diff_day env (dayjs (endAt (time q))) (startAt (time q))) 1)"
  using assms
  by (simp add: long_enableDateBasedOptimizedEventTable_def long_getEventTable_def ebind_Inr)

lemma long_range:
  assumes "long_getApplication apps q = Inr app"
      and "et_dateBasedCreatedAtField (eventTable app) = Some db" and "db \<noteq> []"
      and "en = number_ge (diff_day env (dayjs (endAt (time q))) (startAt (time q))) 1"
  shows "\<exists>lo hi.
     long_buildOptimizedDateRangeQuery env apps q
       = Inr (Sql (dq @ et_name (eventTable app) @ dq @ ''.'' @ dq
                   @ (if en then db else et_createdAtField (eventTable app))
                   @ dq @ '' BETWEEN ? AND ?'')
               [BStr lo, BStr hi])
     \<and> (en \<longrightarrow>
          lo = dayjs_format_YMD env (dayjs_startOf_day env (dayjs (startAt (time q))))
          \<and> hi = dayjs_format_YMD env (dayjs_endOf_day env (dayjs (endAt (time q)))))
     \<and> (\<not> en \<and> et_createdAtFieldType (eventTable app) = ''timestampMs'' \<longrightarrow>
          lo = String_number (dayjs (startAt (time q)))
          \<and> hi = String_number (dayjs (endAt (time q))))"
  using assms
  by (simp add: long_buildOptimizedDateRangeQuery_def long_enable long_getEventTable_def
      ebind_Inr truthy_def nullish_or_def Let_def sql_simps sql_app_def raw_def bound_def
      dayjs_valueOf_def split: prod.splits)

lemma long_bucket:
  assumes "long_getApplication apps q = Inr app"
      and "et_dateBasedCreatedAtField (eventTable app) = Some db" and "db \<noteq> []"
      and "en = number_ge (diff_day env (dayjs (endAt (time q))) (startAt (time q))) 1"
  shows "long_buildOptimizedDateQuerySql env apps q
     = (if en
        then Inr (Sql (''DATE_FORMAT('' @ dq @ et_name (eventTable app) @ dq @ ''.'' @ dq @ db
                       @ dq @ '', '' @ sq @ format_text (time_unit (time q)) @ sq
                       @ '') date'') [])
        else ebind (long_getDateQuery
                      (dq @ et_name (eventTable app) @ dq @ ''.'' @ dq
                       @ et_createdAtField (eventTable app) @ dq)
                      (time_unit (time q))
                      (case time_timezone (time q) of None \<Rightarrow> ''UTC'' | Some z \<Rightarrow> z)
                      (Some (et_createdAtFieldType (eventTable app))))
               (\<lambda>dateQuery. Inr (sql_tpl [dateQuery, raw '' date''])))"
  using assms
  by (simp add: long_buildOptimizedDateQuerySql_def long_enable long_getEventTable_def
      ebind_Inr truthy_def tpl_string_def Let_def sql_simps sql_app_def raw_def)

lemma wide_enable:
  assumes "wide_getApplication apps q = Inr app"
  shows "wide_enableDateBasedOptimizedEventTable env apps q
     = Inr (truthy (dateBasedCreatedAtField app)
            \<and> number_ge (diff_day env (dayjs (endAt (time q))) (startAt (time q))) 1)"
  using assms
  by (simp add: wide_enableDateBasedOptimizedEventTable_def ebind_Inr)

lemma wide_range:
  assumes "wide_getApplication apps q = Inr app"
      and "dateBasedCreatedAtField app = Some db" and "db \<noteq> []"
      and "en = number_ge (diff_day env (dayjs (endAt (time q))) (startAt (time q))) 1"
  shows "\<exists>lo hi.
     wide_buildOptimizedDateRangeQuery env apps q
       = Inr (Sql (dq @ (if en then db else createdAtField app)
                   @ dq @ '' BETWEEN ? AND ?'')
               [BStr lo, BStr hi])
     \<and> (en \<longrightarrow>
          lo = dayjs_format_YMD env (dayjs_startOf_day env (dayjs (startAt (time q))))
          \<and> hi = dayjs_format_YMD env (dayjs_endOf_day env (dayjs (endAt (time q)))))
     \<and> (\<not> en \<and> createdAtFieldType app = ''timestampMs'' \<longrightarrow>
          lo = String_number (dayjs (startAt (time q)))
          \<and> hi = String_number (dayjs (endAt (time q))))"
  using assms
  by (simp add: wide_buildOptimizedDateRangeQuery_def wide_enable
      ebind_Inr truthy_def nullish_or_def Let_def sql_simps sql_app_def raw_def bound_def
      dayjs_valueOf_def split: prod.splits)

lemma wide_bucket:
  assumes "wide_getApplication apps q = Inr app"
      and "dateBasedCreatedAtField app = Some db" and "db \<noteq> []"
      and "en = number_ge (diff_day env (dayjs (endAt (time q))) (startAt (time q))) 1"
  shows "wide_buildOptimizedDateQuerySql env apps q
     = (if en
        then Inr (Sql (''DATE_FORMAT('' @ dq @ db @ dq @ '', '' @ sq
                       @ format_text (time_unit (time q)) @ sq @ '') date'') [])
        else ebind (wide_getDateQuery (dq @ createdAtField app @ dq)
                      (time_unit (time q))
                      (case time_timezone (time q) of None \<Rightarrow> ''UTC'' | Some z \<Rightarrow> z)
                      (Some (createdAtFieldType app)))
               (\<lambda>dateQuery. Inr (sql_tpl [dateQuery, raw '' date''])))"
  using assms
  by (simp add: wide_buildOptimizedDateQuerySql_def wide_enable
      ebind_Inr truthy_def tpl_string_def Let_def sql_simps sql_app_def raw_def)

lemma utc_YMD_ex1: "utc_YMD 1754006400000 = ''2025-08-01''"
  by code_simp

lemma utc_YMD_ex3: "utc_YMD 1754179199999 = ''2025-08-02''"
  by code_simp

lemma long_getApplication_example:
  "long_getApplication [example_application] example_query = Inr example_application"
  by (simp add: long_getApplication_def example_application_def example_query_def)

lemma wide_getApplication_example:
  "wide_getApplication [example_wide_application] example_query = Inr example_wide_application"
  by (simp add: wide_getApplication_def example_wide_application_def example_query_def)

lemma engaged_example:
  "number_ge (diff_day utc_dayjs (dayjs 1754092800000) 1754006400000) 1"
  by (simp add: number_ge_diff_day valid_instant_def utc_dayjs_def)

lemma example_times:
  "startAt (time example_query) = 1754006400000" "endAt (time example_query) = 1754092800000"
  by (simp_all add: example_query_def)

lemma example_day_bounds:
  "dayjs_format_YMD utc_dayjs (dayjs_startOf_day utc_dayjs (dayjs 1754006400000))
     = ''2025-08-01''"
  "dayjs_format_YMD utc_dayjs (dayjs_endOf_day utc_dayjs (dayjs 1754092800000))
     = ''2025-08-02''"
  by (simp_all add: day_bound_start day_bound_end valid_instant_def utc_dayjs_def
      utc_YMD_ex1 utc_YMD_ex3)

lemma pad_examples:
  "pad0 4 2025 = ''2025''" "pad0 2 3 = ''03''" "pad0 2 9 = ''09''" "pad0 2 10 = ''10''"
  by (simp_all add: pad0_def js_String_def decimal.simps digit_char_def Let_def)

lemma civil_examples:
  "civil_date 20156 = (2025, 3, 9)" "civil_date 20157 = (2025, 3, 10)"
  by code_simp+

lemma eastern_bounds:
  "dayjs_format_YMD eastern_dayjs (dayjs_startOf_day eastern_dayjs (dayjs 1741496400000))
     = ''2025-03-09''"
  "dayjs_format_YMD eastern_dayjs (dayjs_endOf_day eastern_dayjs (dayjs 1741579200000))
     = ''2025-03-10''"
  by (simp_all add: dayjs_format_YMD_def dayjs_startOf_day_def dayjs_endOf_day_def dayjs_def
      valid_instant_def eastern_dayjs_def eastern_instant_def eastern_local_def
      eastern_utcOffset_def utc_YMD_def civil_examples pad_examples)

lemma decimal_examples:
  "String_number (dayjs 1762056000000) = ''1762056000000''"
  "String_number (dayjs 1762142400000) = ''1762142400000''"
  "String_number (dayjs 0) = ''0''"
  "String_number (dayjs 8640000000000001) = ''NaN''"
  by (simp_all add: String_number_def dayjs_def valid_instant_def js_String_def
      decimal.simps digit_char_def)

subsection \<open>Metrics\<close>

lemma join_items_tautologies:
  "join_items '' OR '' (replicate n (Sql ''1 = 1'' [])) = Sql (tautologies n) []"
proof (induction n rule: tautologies.induct)
  case 1
  show ?case by (simp add: raw_def)
next
  case 2
  show ?case by simp
next
  case (3 n)
  then show ?case by (simp add: sql_app_def raw_def)
qed

lemma long_where_item_all_event:
  "m_name m = ''$all_event'' \<Longrightarrow> long_where_item table m = Sql ''1 = 1'' []"
  by (simp add: long_where_item_def sql_simps sql_app_def raw_def)

lemma long_select_item_all_event:
  "m_name m = ''$all_event'' \<Longrightarrow> m_math m = ''events'' \<Longrightarrow>
   long_select_item table m = Some (Sql (''count(1) as '' @ dq @ ''$all_event'' @ dq) [])"
  by (simp add: long_select_item_def sql_simps sql_app_def raw_def)

lemma map_const_replicate:
  "\<forall>x\<in>set xs. f x = c \<Longrightarrow> map f xs = replicate (length xs) c"
  by (induction xs) simp_all

lemma long_range_Inr_table:
  assumes "long_buildOptimizedDateRangeQuery env apps q = Inr r"
  shows "\<exists>et. long_getEventTable apps q = Inr et"
  using assms
  by (cases "long_getEventTable apps q")
     (simp_all add: long_buildOptimizedDateRangeQuery_def ebind_def)

lemma long_where_all_event:
  assumes ne: "metrics q \<noteq> []"
      and all: "\<forall>m\<in>set (metrics q). m_name m = ''$all_event''"
      and r: "long_buildOptimizedDateRangeQuery env apps q = Inr r"
  shows "long_buildWhereQueryArr env apps q
        = Inr [r, Sql (''('' @ tautologies (length (metrics q)) @ '')'') []]"
proof -
  from long_range_Inr_table [OF r] obtain et where et: "long_getEventTable apps q = Inr et"
    by blast
  have m: "map (long_where_item et) (metrics q)
             = replicate (length (metrics q)) (Sql ''1 = 1'' [] :: 'a sql)"
    by (rule map_const_replicate) (simp add: all long_where_item_all_event)
  have j: "join (map (long_where_item et) (metrics q)) '' OR '' ''('' '')''
        = Inr (Sql (''('' @ tautologies (length (metrics q)) @ '')'') [] :: 'a sql)"
    unfolding m using ne
    by (simp add: join_def join_items_tautologies sql_simps sql_app_def raw_def)
  show ?thesis
    by (simp add: long_buildWhereQueryArr_def et r ebind_Inr j)
qed

lemma long_select_all_event:
  assumes all: "\<forall>m\<in>set (metrics q). m_name m = ''$all_event'' \<and> m_math m = ''events''"
      and a: "long_getApplication apps q = Inr app"
  shows "long_buildSelectQueryArr apps q
        = Inr (replicate (length (metrics q))
                 (Some (Sql (''count(1) as '' @ dq @ ''$all_event'' @ dq) [])))"
proof -
  have m: "map (long_select_item (eventTable app)) (metrics q)
      = replicate (length (metrics q))
          (Some (Sql (''count(1) as '' @ dq @ ''$all_event'' @ dq) [] :: 'a sql))"
    by (rule map_const_replicate) (simp add: all long_select_item_all_event)
  show ?thesis
    by (simp add: long_buildSelectQueryArr_def long_getEventTable_def a ebind_Inr m)
qed

lemma wide_app_metrics: "wide_getApplication wapps (q\<lparr>metrics := ms\<rparr>) = wide_getApplication wapps q"
  by (simp add: wide_getApplication_def)

lemma wide_enable_metrics: "wide_enableDateBasedOptimizedEventTable env wapps (q\<lparr>metrics := ms\<rparr>) = wide_enableDateBasedOptimizedEventTable env wapps q"
  by (simp add: wide_enableDateBasedOptimizedEventTable_def wide_app_metrics)

lemma wide_range_metrics: "wide_buildOptimizedDateRangeQuery env wapps (q\<lparr>metrics := ms\<rparr>) = wide_buildOptimizedDateRangeQuery env wapps q"
  by (simp add: wide_buildOptimizedDateRangeQuery_def wide_app_metrics wide_enable_metrics cong: if_cong)

lemma wide_where_ignores_metrics:
  "wide_buildWhereQueryArr common env wapps (q\<lparr>metrics := ms\<rparr>)
        = wide_buildWhereQueryArr common env wapps q"
  by (simp add: wide_buildWhereQueryArr_def wide_range_metrics)

lemma long_range_example:
  "long_buildOptimizedDateRangeQuery utc_dayjs [example_application] example_query
     = Inr (Sql (dq @ ''events'' @ dq @ ''.'' @ dq @ ''event_date'' @ dq
                 @ '' BETWEEN ? AND ?'')
             [BStr ''2025-08-01'', BStr ''2025-08-02''])"
proof -
  have b: "et_dateBasedCreatedAtField (eventTable example_application) = Some ''event_date''"
    by (simp add: example_application_def)
  have c: "''event_date'' \<noteq> []"
    by simp
  have en: "True = number_ge (diff_day utc_dayjs (dayjs (endAt (time example_query)))
                      (startAt (time example_query))) 1"
    by (simp add: example_times engaged_example)
  have names: "et_name (eventTable example_application) = ''events''"
    by (simp add: example_application_def)
  from long_range [OF long_getApplication_example b c en]
  show ?thesis
    by (auto simp: example_times example_day_bounds names)
qed

lemma wide_select_item_sessions:
  "m_math m = ''sessions'' \<Longrightarrow>
   wide_select_item app m
     = Some (if m_name m = ''$all_event''
             then Sql (''count(distinct '' @ dq @ distinctField app @ dq @ '') as '' @ dq
                       @ ''$all_event'' @ dq) []
             else Sql (''count(distinct case WHEN '' @ dq @ m_name m @ dq @ '' = ? THEN ''
                       @ dq @ distinctField app @ dq @ '' END) as '' @ dq @ m_name m @ dq)
                      [BStr (m_name m)])"
  by (simp add: wide_select_item_def sql_simps sql_app_def raw_def bound_def)

lemma long_select_item_sessions:
  "m_math m = ''sessions'' \<Longrightarrow> long_select_item table m = None"
  by (simp add: long_select_item_def)

subsection \<open>Groups\<close>

lemma emap_Inr_all2:
  "emap f xs = Inr ys \<Longrightarrow> list_all2 (\<lambda>x y. f x = Inr y) xs ys"
proof (induction xs arbitrary: ys)
  case Nil
  then show ?case by simp
next
  case (Cons x xs)
  from Cons.prems obtain y where y: "f x = Inr y"
    by (cases "f x") (simp_all add: ebind_def)
  with Cons.prems obtain zs where zs: "emap f xs = Inr zs"
    by (cases "emap f xs") (simp_all add: ebind_def)
  with y Cons.prems have "ys = y # zs"
    by (simp add: ebind_def)
  with y zs Cons.IH show ?case
    by simp
qed

lemma has_alias_tpl:
  "has_alias (sql_tpl [p, raw ('' as '' @ dq @ ''%''), raw x, raw dq]) (''%'' @ x)"
  unfolding has_alias_def
  by (rule exI [of _ p]) (simp add: sql_simps sql_app_def raw_def)

lemma custom_columns_aliases:
  assumes "emap (\<lambda>cg. ebind (pred cg)
                   (\<lambda>predicate. Inr (sql_tpl [predicate, raw ('' as '' @ dq @ ''%''),
                                          raw (al cg), raw dq]))) cgs = Inr cols"
  shows "list_all2 has_alias cols (map (\<lambda>cg. ''%'' @ al cg) cgs)"
proof -
  have "list_all2 (\<lambda>cg col. ebind (pred cg)
                   (\<lambda>predicate. Inr (sql_tpl [predicate, raw ('' as '' @ dq @ ''%''),
                                          raw (al cg), raw dq])) = Inr col) cgs cols"
    using assms by (rule emap_Inr_all2)
  then have "list_all2 (\<lambda>cg col. has_alias col (''%'' @ al cg)) cgs cols"
  proof (rule list_all2_mono)
    fix cg col
    assume "ebind (pred cg)
              (\<lambda>predicate. Inr (sql_tpl [predicate, raw ('' as '' @ dq @ ''%''),
                                     raw (al cg), raw dq])) = Inr col"
    then obtain p where "col = sql_tpl [p, raw ('' as '' @ dq @ ''%''), raw (al cg), raw dq]"
      by (cases "pred cg") (auto simp: ebind_def)
    then show "has_alias col (''%'' @ al cg)"
      by (simp only: has_alias_tpl)
  qed
  then show ?thesis
    by (simp add: list_all2_map2 list_all2_conv_all_nth)
qed

lemma long_group_columns_aliases:
  assumes "long_group_columns common toStr apps q g = Inr cols"
  shows "list_all2 has_alias cols (group_aliases toStr g)"
proof (cases "customGroups g")
  case None
  with assms obtain vf where
    "cols = [sql_tpl [vf, raw ('' as '' @ dq @ ''%''), raw (g_value g), raw dq]]"
    by (cases "long_getValueField apps q (g_type g)")
       (auto simp: long_group_columns_def ebind_def)
  with None has_alias_tpl [of vf "g_value g"] show ?thesis
    by (simp add: group_aliases_def)
next
  case (Some cgs)
  show ?thesis
  proof (cases "cgs = []")
    case True
    with Some assms show ?thesis
      by (simp add: long_group_columns_def group_aliases_def)
  next
    case False
    with Some assms have
      "emap (\<lambda>cg. ebind (long_buildFilterQueryOperator common apps q (g_type g)
                          (filterOperator cg) (filterValue cg))
                   (\<lambda>predicate. Inr (sql_tpl [predicate, raw ('' as '' @ dq @ ''%''),
                       raw (g_value g @ ''|'' @ filterOperator cg @ ''|''
                            @ toStr (filterValue cg)), raw dq]))) cgs = Inr cols"
      by (simp add: long_group_columns_def)
    from custom_columns_aliases [OF this] Some show ?thesis
      by (simp add: group_aliases_def)
  qed
qed

lemma wide_group_columns_aliases:
  assumes "wide_group_columns common toStr g = Inr cols"
  shows "list_all2 has_alias cols (group_aliases toStr g)"
proof (cases "customGroups g")
  case None
  with assms have
    "cols = [sql_tpl [raw (g_value g), raw ('' as '' @ dq @ ''%''), raw (g_value g), raw dq]]"
    by (auto simp: wide_group_columns_def)
  with None has_alias_tpl [of "raw (g_value g)" "g_value g"] show ?thesis
    by (simp add: group_aliases_def)
next
  case (Some cgs)
  show ?thesis
  proof (cases "cgs = []")
    case True
    with Some assms show ?thesis
      by (simp add: wide_group_columns_def group_aliases_def)
  next
    case False
    with Some assms have
      "emap (\<lambda>cg. ebind (common (g_type g) (filterOperator cg) (filterValue cg)
                          (sql_tpl [raw dq, raw (g_value g), raw dq]))
                   (\<lambda>predicate. Inr (sql_tpl [predicate, raw ('' as '' @ dq @ ''%''),
                       raw (g_value g @ ''|'' @ filterOperator cg @ ''|''
                            @ toStr (filterValue cg)), raw dq]))) cgs = Inr cols"
      by (simp add: wide_group_columns_def)
    from custom_columns_aliases [OF this] Some show ?thesis
      by (simp add: group_aliases_def)
  qed
qed

lemma emap_concat_all2:
  assumes step: "\<And>g cols. f g = Inr cols \<Longrightarrow> list_all2 R cols (al g)"
      and run: "emap f gs = Inr colss"
  shows "list_all2 R (concat colss) (concat (map al gs))"
proof -
  from run have "list_all2 (\<lambda>g cols. f g = Inr cols) gs colss"
    by (rule emap_Inr_all2)
  then show ?thesis
  proof (induction gs colss rule: list_all2_induct)
    case Nil
    show ?case by simp
  next
    case (Cons g gs cols colss)
    from step [OF Cons.hyps(1)] Cons.IH show ?case
      by (simp add: list_all2_appendI)
  qed
qed

lemma long_group_select_aliases:
  assumes "long_buildGroupSelectQueryArr common toStr apps q = Inr cols"
  shows "list_all2 has_alias cols (concat (map (group_aliases toStr) (groups q)))"
proof (cases "groups q = []")
  case True
  with assms show ?thesis
    by (simp add: long_buildGroupSelectQueryArr_def)
next
  case False
  with assms obtain colss where
    run: "emap (long_group_columns common toStr apps q) (groups q) = Inr colss"
    and cols: "cols = concat colss"
    by (cases "emap (long_group_columns common toStr apps q) (groups q)")
       (auto simp: long_buildGroupSelectQueryArr_def ebind_def)
  show ?thesis
    unfolding cols
    by (rule emap_concat_all2 [OF _ run]) (rule long_group_columns_aliases)
qed

lemma wide_group_select_aliases:
  assumes "wide_buildGroupSelectQueryArr common toStr q = Inr cols"
  shows "list_all2 has_alias cols (concat (map (group_aliases toStr) (groups q)))"
proof (cases "groups q = []")
  case True
  with assms show ?thesis
    by (simp add: wide_buildGroupSelectQueryArr_def)
next
  case False
  with assms obtain colss where
    run: "emap (wide_group_columns common toStr) (groups q) = Inr colss"
    and cols: "cols = concat colss"
    by (cases "emap (wide_group_columns common toStr) (groups q)")
       (auto simp: wide_buildGroupSelectQueryArr_def ebind_def)
  show ?thesis
    unfolding cols
    by (rule emap_concat_all2 [OF _ run]) (rule wide_group_columns_aliases)
qed

lemma group_aliases_prefix:
  "alias \<in> set (group_aliases toStr g) \<Longrightarrow> take 1 alias = ''%''"
  by (auto simp: group_aliases_def split: option.splits)

lemma long_groups_example:
  "long_buildGroupSelectQueryArr example_common id [example_application]
     (example_query\<lparr>groups := example_groups\<rparr>)
   = Inr [Sql (dq @ ''event_parameters'' @ dq @ ''.'' @ dq @ ''event_param_value'' @ dq
               @ '' as '' @ dq @ ''%country'' @ dq) [],
          Sql (dq @ ''event_parameters'' @ dq @ ''.'' @ dq @ ''event_param_value'' @ dq
               @ '' > ? as '' @ dq @ ''%age|greater than|18'' @ dq) [BVal ''18''],
          Sql (dq @ ''event_parameters'' @ dq @ ''.'' @ dq @ ''event_param_value'' @ dq
               @ '' = ? as '' @ dq @ ''%age|equals|65'' @ dq) [BVal ''65'']]"
  by (simp add: long_buildGroupSelectQueryArr_def long_group_columns_def
      long_buildFilterQueryOperator_def long_getValueField_def
      long_getEventParametersTable_def long_getApplication_def example_common_def
      example_groups_def example_query_def example_application_def nullish_or_def
      ebind_def sql_simps sql_app_def raw_def bound_def)

lemma wide_groups_example:
  "wide_buildGroupSelectQueryArr example_common id
     (example_query\<lparr>groups := example_groups\<rparr>)
   = Inr [Sql (''country as '' @ dq @ ''%country'' @ dq) [],
          Sql (dq @ ''age'' @ dq @ '' > ? as '' @ dq @ ''%age|greater than|18'' @ dq)
            [BVal ''18''],
          Sql (dq @ ''age'' @ dq @ '' = ? as '' @ dq @ ''%age|equals|65'' @ dq)
            [BVal ''65'']]"
  by (simp add: wide_buildGroupSelectQueryArr_def wide_group_columns_def example_common_def
      example_groups_def example_query_def ebind_def sql_simps sql_app_def raw_def bound_def)

lemma emap_total:
  assumes "\<forall>x\<in>set xs. \<exists>y. f x = Inr y"
  shows "\<exists>ys. emap f xs = Inr ys"
  using assms
proof (induction xs)
  case Nil
  show ?case by simp
next
  case (Cons x xs)
  then obtain y ys where "f x = Inr y" and "emap f xs = Inr ys"
    by auto
  then show ?case
    by (simp add: ebind_def)
qed

lemma emap_Inl:
  assumes "emap f xs = Inl e"
  shows "\<exists>x\<in>set xs. f x = Inl e"
  using assms
proof (induction xs)
  case Nil
  then show ?case by simp
next
  case (Cons x xs)
  show ?case
  proof (cases "f x")
    case (Inl e')
    with Cons.prems show ?thesis
      by (simp add: ebind_def)
  next
    case (Inr y)
    with Cons.prems have "emap f xs = Inl e"
      by (cases "emap f xs") (simp_all add: ebind_def)
    with Cons.IH show ?thesis
      by auto
  qed
qed

lemma quoted_column: "sql_tpl [raw dq, raw v, raw dq] = Sql (dq @ v @ dq) []"
  by (simp add: sql_simps sql_app_def raw_def)

lemma wide_group_columns_total:
  assumes "\<forall>cgs. customGroups g = Some cgs \<longrightarrow>
             (\<forall>cg\<in>set cgs. \<exists>p. common (g_type g) (filterOperator cg) (filterValue cg)
                                     (Sql (dq @ g_value g @ dq) []) = Inr p)"
  shows "\<exists>cols. wide_group_columns common toStr g = Inr cols"
proof (cases "customGroups g")
  case None
  then show ?thesis
    by (simp add: wide_group_columns_def)
next
  case (Some cgs)
  with assms have acc: "\<forall>cg\<in>set cgs. \<exists>p. common (g_type g) (filterOperator cg)
                           (filterValue cg) (Sql (dq @ g_value g @ dq) []) = Inr p"
    by simp
  have "\<exists>cols. emap (\<lambda>cg.
                 ebind (common (g_type g) (filterOperator cg) (filterValue cg)
                          (Sql (dq @ g_value g @ dq) []))
                   (\<lambda>predicate.
                     Inr (sql_tpl [predicate, raw ('' as '' @ dq @ ''%''),
                            raw (g_value g @ ''|'' @ filterOperator cg @ ''|''
                                 @ toStr (filterValue cg)),
                            raw dq]))) cgs = Inr cols"
  proof (rule emap_total, rule ballI)
    fix cg assume "cg \<in> set cgs"
    with acc obtain p where "common (g_type g) (filterOperator cg) (filterValue cg)
                           (Sql (dq @ g_value g @ dq) []) = Inr p"
      by blast
    then show "\<exists>y. ebind (common (g_type g) (filterOperator cg) (filterValue cg)
                          (Sql (dq @ g_value g @ dq) []))
                   (\<lambda>predicate.
                     Inr (sql_tpl [predicate, raw ('' as '' @ dq @ ''%''),
                            raw (g_value g @ ''|'' @ filterOperator cg @ ''|''
                                 @ toStr (filterValue cg)),
                            raw dq])) = Inr y"
      by (simp only: ebind_Inr) blast
  qed
  with Some show ?thesis
    unfolding wide_group_columns_def quoted_column by (cases "cgs = []") simp_all
qed

lemma wide_group_columns_Inl:
  assumes "wide_group_columns common toStr g = Inl e"
  shows "\<exists>cgs. customGroups g = Some cgs
           \<and> (\<exists>cg\<in>set cgs. common (g_type g) (filterOperator cg) (filterValue cg)
                               (Sql (dq @ g_value g @ dq) []) = Inl e)"
proof (cases "customGroups g")
  case None
  with assms show ?thesis
    by (simp add: wide_group_columns_def)
next
  case (Some cgs)
  with assms have "emap (\<lambda>cg.
                 ebind (common (g_type g) (filterOperator cg) (filterValue cg)
                          (Sql (dq @ g_value g @ dq) []))
                   (\<lambda>predicate.
                     Inr (sql_tpl [predicate, raw ('' as '' @ dq @ ''%''),
                            raw (g_value g @ ''|'' @ filterOperator cg @ ''|''
                                 @ toStr (filterValue cg)),
                            raw dq]))) cgs = Inl e"
    unfolding wide_group_columns_def quoted_column by (cases "cgs = []") simp_all
  from emap_Inl [OF this] obtain cg where cg: "cg \<in> set cgs"
    and f: "ebind (common (g_type g) (filterOperator cg) (filterValue cg)
                          (Sql (dq @ g_value g @ dq) []))
                   (\<lambda>predicate.
                     Inr (sql_tpl [predicate, raw ('' as '' @ dq @ ''%''),
                            raw (g_value g @ ''|'' @ filterOperator cg @ ''|''
                                 @ toStr (filterValue cg)),
                            raw dq])) = Inl e"
    by blast
  from f have "common (g_type g) (filterOperator cg) (filterValue cg)
                 (Sql (dq @ g_value g @ dq) []) = Inl e"
    by (cases "common (g_type g) (filterOperator cg) (filterValue cg)
                 (Sql (dq @ g_value g @ dq) [])") (simp_all add: ebind_def)
  with Some cg show ?thesis
    by blast
qed

lemma wide_group_select_total:
  assumes "\<forall>g\<in>set (groups q). \<forall>cgs. customGroups g = Some cgs \<longrightarrow>
             (\<forall>cg\<in>set cgs. \<exists>p. common (g_type g) (filterOperator cg) (filterValue cg)
                                     (Sql (dq @ g_value g @ dq) []) = Inr p)"
  shows "\<exists>cols. wide_buildGroupSelectQueryArr common toStr q = Inr cols"
proof -
  have "\<exists>colss. emap (wide_group_columns common toStr) (groups q) = Inr colss"
    by (rule emap_total) (use assms wide_group_columns_total in blast)
  then show ?thesis
    by (auto simp: wide_buildGroupSelectQueryArr_def ebind_def)
qed

lemma wide_group_select_Inl:
  assumes "wide_buildGroupSelectQueryArr common toStr q = Inl e"
  shows "\<exists>g\<in>set (groups q). \<exists>cgs. customGroups g = Some cgs
           \<and> (\<exists>cg\<in>set cgs. common (g_type g) (filterOperator cg) (filterValue cg)
                               (Sql (dq @ g_value g @ dq) []) = Inl e)"
proof -
  from assms have "emap (wide_group_columns common toStr) (groups q) = Inl e"
    by (cases "emap (wide_group_columns common toStr) (groups q)")
       (auto simp: wide_buildGroupSelectQueryArr_def ebind_def split: if_splits)
  from emap_Inl [OF this] obtain g where "g \<in> set (groups q)"
    and "wide_group_columns common toStr g = Inl e"
    by blast
  with wide_group_columns_Inl show ?thesis
    by blast
qed

lemma long_getValueField_total:
  assumes "long_getApplication apps q = Inr app"
  shows "\<exists>vf. long_getValueField apps q t = Inr vf"
  using assms
  by (simp add: long_getValueField_def long_getEventParametersTable_def ebind_def)

lemma long_getValueField_Inl:
  assumes "long_getValueField apps q t = Inl e"
  shows "long_getApplication apps q = Inl e"
  using assms
  by (cases "long_getApplication apps q")
     (simp_all add: long_getValueField_def long_getEventParametersTable_def ebind_def)

lemma long_group_columns_total:
  assumes "long_getApplication apps q = Inr app"
      and "\<forall>cgs. customGroups g = Some cgs \<longrightarrow>
             (\<forall>cg\<in>set cgs. \<exists>p. long_buildFilterQueryOperator common apps q (g_type g)
                                     (filterOperator cg) (filterValue cg) = Inr p)"
  shows "\<exists>cols. long_group_columns common toStr apps q g = Inr cols"
proof (cases "customGroups g")
  case None
  from long_getValueField_total [OF assms(1)] obtain vf where
    "long_getValueField apps q (g_type g) = Inr vf"
    by blast
  with None show ?thesis
    by (simp add: long_group_columns_def ebind_def)
next
  case (Some cgs)
  with assms have acc: "\<forall>cg\<in>set cgs. \<exists>p. long_buildFilterQueryOperator common apps q
                           (g_type g) (filterOperator cg) (filterValue cg) = Inr p"
    by simp
  have "\<exists>cols. emap (\<lambda>cg.
                 ebind (long_buildFilterQueryOperator common apps q (g_type g)
                          (filterOperator cg) (filterValue cg))
                   (\<lambda>predicate.
                     Inr (sql_tpl [predicate, raw ('' as '' @ dq @ ''%''),
                            raw (g_value g @ ''|'' @ filterOperator cg @ ''|''
                                 @ toStr (filterValue cg)),
                            raw dq]))) cgs = Inr cols"
  proof (rule emap_total, rule ballI)
    fix cg assume "cg \<in> set cgs"
    with acc obtain p where "long_buildFilterQueryOperator common apps q (g_type g)
                          (filterOperator cg) (filterValue cg) = Inr p"
      by blast
    then show "\<exists>y. ebind (long_buildFilterQueryOperator common apps q (g_type g)
                          (filterOperator cg) (filterValue cg))
                   (\<lambda>predicate.
                     Inr (sql_tpl [predicate, raw ('' as '' @ dq @ ''%''),
                            raw (g_value g @ ''|'' @ filterOperator cg @ ''|''
                                 @ toStr (filterValue cg)),
                            raw dq])) = Inr y"
      by (simp only: ebind_Inr) blast
  qed
  with Some show ?thesis
    unfolding long_group_columns_def by (cases "cgs = []") simp_all
qed

lemma long_group_columns_Inl:
  assumes "long_group_columns common toStr apps q g = Inl e"
  shows "long_getApplication apps q = Inl e
         \<or> (\<exists>cgs. customGroups g = Some cgs
              \<and> (\<exists>cg\<in>set cgs. \<exists>vf. long_getValueField apps q (g_type g) = Inr vf
                    \<and> common (g_type g) (filterOperator cg) (filterValue cg) vf = Inl e))"
proof (cases "customGroups g")
  case None
  with assms have "long_getValueField apps q (g_type g) = Inl e"
    by (cases "long_getValueField apps q (g_type g)")
       (simp_all add: long_group_columns_def ebind_def)
  then show ?thesis
    by (simp add: long_getValueField_Inl)
next
  case (Some cgs)
  with assms have "emap (\<lambda>cg.
                 ebind (long_buildFilterQueryOperator common apps q (g_type g)
                          (filterOperator cg) (filterValue cg))
                   (\<lambda>predicate.
                     Inr (sql_tpl [predicate, raw ('' as '' @ dq @ ''%''),
                            raw (g_value g @ ''|'' @ filterOperator cg @ ''|''
                                 @ toStr (filterValue cg)),
                            raw dq]))) cgs = Inl e"
    unfolding long_group_columns_def by (cases "cgs = []") simp_all
  from emap_Inl [OF this] obtain cg where cg: "cg \<in> set cgs"
    and f: "ebind (long_buildFilterQueryOperator common apps q (g_type g)
                          (filterOperator cg) (filterValue cg))
                   (\<lambda>predicate.
                     Inr (sql_tpl [predicate, raw ('' as '' @ dq @ ''%''),
                            raw (g_value g @ ''|'' @ filterOperator cg @ ''|''
                                 @ toStr (filterValue cg)),
                            raw dq])) = Inl e"
    by blast
  from f have op: "long_buildFilterQueryOperator common apps q (g_type g)
                 (filterOperator cg) (filterValue cg) = Inl e"
    by (cases "long_buildFilterQueryOperator common apps q (g_type g)
                 (filterOperator cg) (filterValue cg)") (simp_all add: ebind_def)
  show ?thesis
  proof (cases "long_getValueField apps q (g_type g)")
    case (Inl e')
    with op have "e' = e"
      by (simp add: long_buildFilterQueryOperator_def ebind_def)
    with Inl show ?thesis
      by (simp add: long_getValueField_Inl)
  next
    case (Inr vf)
    with op have "common (g_type g) (filterOperator cg) (filterValue cg) vf = Inl e"
      by (simp add: long_buildFilterQueryOperator_def ebind_def)
    with Some cg Inr show ?thesis
      by blast
  qed
qed

lemma long_group_select_total:
  assumes "long_getApplication apps q = Inr app"
      and "\<forall>g\<in>set (groups q). \<forall>cgs. customGroups g = Some cgs \<longrightarrow>
             (\<forall>cg\<in>set cgs. \<exists>p. long_buildFilterQueryOperator common apps q (g_type g)
                                     (filterOperator cg) (filterValue cg) = Inr p)"
  shows "\<exists>cols. long_buildGroupSelectQueryArr common toStr apps q = Inr cols"
proof -
  have "\<exists>colss. emap (long_group_columns common toStr apps q) (groups q) = Inr colss"
    by (rule emap_total) (use assms long_group_columns_total in blast)
  then show ?thesis
    by (auto simp: long_buildGroupSelectQueryArr_def ebind_def)
qed

lemma long_group_select_Inl:
  assumes "long_buildGroupSelectQueryArr common toStr apps q = Inl e"
  shows "long_getApplication apps q = Inl e
         \<or> (\<exists>g\<in>set (groups q). \<exists>cgs. customGroups g = Some cgs
              \<and> (\<exists>cg\<in>set cgs. \<exists>vf. long_getValueField apps q (g_type g) = Inr vf
                    \<and> common (g_type g) (filterOperator cg) (filterValue cg) vf = Inl e))"
proof -
  from assms have "emap (long_group_columns common toStr apps q) (groups q) = Inl e"
    by (cases "emap (long_group_columns common toStr apps q) (groups q)")
       (auto simp: long_buildGroupSelectQueryArr_def ebind_def split: if_splits)
  from emap_Inl [OF this] obtain g where g: "g \<in> set (groups q)"
    and "long_group_columns common toStr apps q g = Inl e"
    by blast
  from long_group_columns_Inl [OF this(2)] g show ?thesis
    by blast
qed

subsection \<open>The cache and the dispatch\<close>

lemma getWarehouseApplications_cached:
  "getWarehouseApplications parse json (Some apps) = (Inr apps, Some apps)"
  by (simp add: getWarehouseApplications_def)

lemma getWarehouseApplications_Inr:
  assumes "getWarehouseApplications parse json st = (Inr apps, st')"
  shows "st' = Some apps"
  using assms
  by (auto simp: getWarehouseApplications_def split: option.splits sum.splits)

lemma getWarehouseApplications_calls_cached:
  "getWarehouseApplications_calls parse js (Some apps) = replicate (length js) (Inr apps)"
  by (induction js) (simp_all add: getWarehouseApplications_cached)

lemma queryWarehouseEvents_found:
  assumes "findWarehouseApplication (workspaceId q) (insightId q) = Inr found"
  shows "queryWarehouseEvents findWarehouseApplication wide_queryEvents long_queryEvents q ctx
     = (if (case found of None \<Rightarrow> False | Some a \<Rightarrow> w_type a = ''wideTable'')
        then wide_queryEvents q ctx (cursor q) else long_queryEvents q ctx (cursor q))"
  using assms by (simp add: queryWarehouseEvents_def ebind_def)

section \<open>Unknown storage encodings\<close>

text \<open>
  C9. A storage encoding outside \<open>timestamp\<close>, \<open>timestampMs\<close>, \<open>date\<close> and
  \<open>datetime\<close> is no error of its own in either builder: \<open>getDateQuery\<close> gives
  exactly what it gives for \<open>timestampMs\<close>, whatever the other arguments are, and for
  a unit of the format table that is the expression reading the column as
  milliseconds since the epoch.
\<close>

theorem getDateQuery_unknown_type_is_timestampMs:
  assumes "ty \<notin> {''timestamp'', ''timestampMs'', ''date'', ''datetime''}"
  shows "long_getDateQuery field unit tz (Some ty)
           = (long_getDateQuery field unit tz (Some ''timestampMs'') :: error + 'v sql)
       \<and> wide_getDateQuery field unit tz (Some ty)
           = (wide_getDateQuery field unit tz (Some ''timestampMs'') :: error + 'v sql)
       \<and> (map_of MYSQL_DATE_FORMATS unit = Some fmt \<longrightarrow>
            long_getDateQuery field unit tz (Some ty)
              = Inr (Sql (''DATE_FORMAT(CONVERT_TZ(FROM_UNIXTIME('' @ field
                          @ '' / 1000), '+00:00', ?), '' @ sq @ fmt @ sq @ '')'')
                         [BStr tz] :: 'v sql)
          \<and> wide_getDateQuery field unit tz (Some ty)
              = Inr (Sql (''DATE_FORMAT(CONVERT_TZ(FROM_UNIXTIME('' @ field
                          @ '' / 1000), '+00:00', ?), '' @ sq @ fmt @ sq @ '')'')
                         [BStr tz] :: 'v sql))"
proof -
  have long_eq: "long_getDateQuery field unit tz (Some ty)
      = (long_getDateQuery field unit tz (Some ''timestampMs'') :: error + 'v sql)"
    using assms by (simp add: long_getDateQuery_def)
  have wide_eq: "wide_getDateQuery field unit tz (Some ty)
      = (wide_getDateQuery field unit tz (Some ''timestampMs'') :: error + 'v sql)"
    using assms by (simp add: wide_getDateQuery_def)
  have expr: "long_getDateQuery field unit tz (Some ty)
        = Inr (Sql (''DATE_FORMAT(CONVERT_TZ(FROM_UNIXTIME('' @ field
                    @ '' / 1000), '+00:00', ?), '' @ sq @ fmt @ sq @ '')'')
                   [BStr tz] :: 'v sql)
      \<and> wide_getDateQuery field unit tz (Some ty)
        = Inr (Sql (''DATE_FORMAT(CONVERT_TZ(FROM_UNIXTIME('' @ field
                    @ '' / 1000), '+00:00', ?), '' @ sq @ fmt @ sq @ '')'')
                   [BStr tz] :: 'v sql)"
    if own: "map_of MYSQL_DATE_FORMATS unit = Some fmt"
  proof -
    have t: "format_text unit = fmt" and i: "in_MYSQL_DATE_FORMATS unit"
      using own by (rule format_text_own, rule in_MYSQL_DATE_FORMATS_own)
    show ?thesis
      using assms
      by (simp add: long_getDateQuery_def wide_getDateQuery_def t i sql_simps sql_app_def
          raw_def bound_def)
  qed
  from long_eq wide_eq expr show ?thesis by blast
qed

theorem getDateQuery_unknown_type_witness:
  "''epochNanos'' \<notin> {''timestamp'', ''timestampMs'', ''date'', ''datetime''}
   \<and> long_getDateQuery ''ts'' ''day'' ''UTC'' (Some ''epochNanos'')
       = Inr (Sql (''DATE_FORMAT(CONVERT_TZ(FROM_UNIXTIME(ts / 1000), '+00:00', ?), ''
                   @ sq @ ''%Y-%m-%d'' @ sq @ '')'') [BStr ''UTC''] :: unit sql)
   \<and> wide_getDateQuery ''ts'' ''day'' ''UTC'' (Some ''epochNanos'')
       = Inr (Sql (''DATE_FORMAT(CONVERT_TZ(FROM_UNIXTIME(ts / 1000), '+00:00', ?), ''
                   @ sq @ ''%Y-%m-%d'' @ sq @ '')'') [BStr ''UTC''] :: unit sql)
   \<and> (long_getDateQuery ''ts'' ''week'' ''UTC'' (Some ''epochNanos'') :: error + unit sql)
       = Inl (Error ''Invalid date unit: week'')"
proof -
  have h: "''epochNanos'' \<notin> {''timestamp'', ''timestampMs'', ''date'', ''datetime''}"
    by simp
  have own: "map_of MYSQL_DATE_FORMATS ''day'' = Some ''%Y-%m-%d''"
    by (simp add: MYSQL_DATE_FORMATS_def)
  have week: "(long_getDateQuery ''ts'' ''week'' ''UTC'' (Some ''timestampMs'')
                 :: error + unit sql) = Inl (Error ''Invalid date unit: week'')"
    by (simp add: long_getDateQuery_def in_MYSQL_DATE_FORMATS_def MYSQL_DATE_FORMATS_def
        Object_prototype_keys_def)
  show ?thesis
    using h own week
      getDateQuery_unknown_type_is_timestampMs
        [OF h, of "''ts''" "''day''" "''UTC''" "''%Y-%m-%d''", where 'v = unit]
      getDateQuery_unknown_type_is_timestampMs
        [OF h, of "''ts''" "''week''" "''UTC''" "[]", where 'v = unit]
    by (auto simp: sq_def)
qed

section \<open>The date-based column\<close>

text \<open>
  C1, as the code has it. Take a schema that declares a date-based created-at column (a
  non-empty name: an empty string is falsy and counts as no column). In both builders
  the date-based column replaces the raw created-at column, in the range predicate and in
  the bucket expression alike, exactly when \<open>dayjs(endAt).diff(startAt, 'day') >= 1\<close>:
  both instants are in the \<open>Date\<close> range, and the window, corrected by the change of the
  server's offset from UTC between its two ends, is 24 hours or more. Where the offset is
  the same at both ends that is the window spanning a full day. When the column is used,
  the bounds are the \<open>YYYY-MM-DD\<close> strings of the start of the first day and the end of
  the last day (\<open>Invalid Date\<close> should one of these leave the \<open>Date\<close> range), and the
  bucket expression is \<open>DATE_FORMAT\<close> of the date-based column with the unit's format
  and no bound time zone. Otherwise both read the raw column, the bucket through
  \<open>getDateQuery\<close>.
\<close>

theorem date_based_column_used_iff_offset_corrected_day:
  "(long_getApplication lapps q = Inr la
      \<and> et_dateBasedCreatedAtField (eventTable la) = Some ldb \<and> ldb \<noteq> []
      \<and> engaged = (valid_instant (startAt (time q)) \<and> valid_instant (endAt (time q))
           \<and> 86400000 \<le> (endAt (time q) - startAt (time q))
                 - (utcOffset env (startAt (time q)) - utcOffset env (endAt (time q)))
                   * 60000)
      \<longrightarrow>
      long_enableDateBasedOptimizedEventTable env lapps q
        = Inr engaged
      \<and> (\<exists>lo hi.
           long_buildOptimizedDateRangeQuery env lapps q
             = Inr (Sql (dq @ et_name (eventTable la) @ dq @ ''.'' @ dq
                         @ (if engaged then ldb else et_createdAtField (eventTable la))
                         @ dq @ '' BETWEEN ? AND ?'')
                     [BStr lo, BStr hi])
           \<and> (engaged \<longrightarrow>
                lo = (if valid_instant (startOf_day env (startAt (time q)))
                      then format_YMD env (startOf_day env (startAt (time q)))
                      else ''Invalid Date'')
                \<and> hi = (if valid_instant (endOf_day env (endAt (time q)))
                        then format_YMD env (endOf_day env (endAt (time q)))
                        else ''Invalid Date'')))
      \<and> long_buildOptimizedDateQuerySql env lapps q
        = (if engaged
           then Inr (Sql (''DATE_FORMAT('' @ dq @ et_name (eventTable la) @ dq @ ''.'' @ dq
                          @ ldb @ dq @ '', '' @ sq @ format_text (time_unit (time q)) @ sq
                          @ '') date'') [])
           else ebind (long_getDateQuery
                         (dq @ et_name (eventTable la) @ dq @ ''.'' @ dq
                          @ et_createdAtField (eventTable la) @ dq)
                         (time_unit (time q))
                         (case time_timezone (time q) of None \<Rightarrow> ''UTC'' | Some z \<Rightarrow> z)
                         (Some (et_createdAtFieldType (eventTable la))))
                  (\<lambda>dateQuery. Inr (sql_tpl [dateQuery, raw '' date''])))
      \<and> (valid_instant (startAt (time q)) \<and> valid_instant (endAt (time q))
        \<and> utcOffset env (startAt (time q)) = utcOffset env (endAt (time q))
        \<longrightarrow> engaged = window_spans_full_day (time q)))
   \<and> (wide_getApplication wapps q = Inr wa
      \<and> dateBasedCreatedAtField wa = Some wdb \<and> wdb \<noteq> []
      \<and> engaged = (valid_instant (startAt (time q)) \<and> valid_instant (endAt (time q))
           \<and> 86400000 \<le> (endAt (time q) - startAt (time q))
                 - (utcOffset env (startAt (time q)) - utcOffset env (endAt (time q)))
                   * 60000)
      \<longrightarrow>
      wide_enableDateBasedOptimizedEventTable env wapps q
        = Inr engaged
      \<and> (\<exists>lo hi.
           wide_buildOptimizedDateRangeQuery env wapps q
             = Inr (Sql (dq @ (if engaged then wdb else createdAtField wa)
                         @ dq @ '' BETWEEN ? AND ?'')
                     [BStr lo, BStr hi])
           \<and> (engaged \<longrightarrow>
                lo = (if valid_instant (startOf_day env (startAt (time q)))
                      then format_YMD env (startOf_day env (startAt (time q)))
                      else ''Invalid Date'')
                \<and> hi = (if valid_instant (endOf_day env (endAt (time q)))
                        then format_YMD env (endOf_day env (endAt (time q)))
                        else ''Invalid Date'')))
      \<and> wide_buildOptimizedDateQuerySql env wapps q
        = (if engaged
           then Inr (Sql (''DATE_FORMAT('' @ dq @ wdb @ dq @ '', '' @ sq
                          @ format_text (time_unit (time q)) @ sq @ '') date'') [])
           else ebind (wide_getDateQuery (dq @ createdAtField wa @ dq)
                         (time_unit (time q))
                         (case time_timezone (time q) of None \<Rightarrow> ''UTC'' | Some z \<Rightarrow> z)
                         (Some (createdAtFieldType wa)))
                  (\<lambda>dateQuery. Inr (sql_tpl [dateQuery, raw '' date''])))
      \<and> (valid_instant (startAt (time q)) \<and> valid_instant (endAt (time q))
        \<and> utcOffset env (startAt (time q)) = utcOffset env (endAt (time q))
        \<longrightarrow> engaged = window_spans_full_day (time q)))"
proof (intro conjI impI)
  assume h: "long_getApplication lapps q = Inr la
      \<and> et_dateBasedCreatedAtField (eventTable la) = Some ldb \<and> ldb \<noteq> []
      \<and> engaged = (valid_instant (startAt (time q)) \<and> valid_instant (endAt (time q))
           \<and> 86400000 \<le> (endAt (time q) - startAt (time q))
                 - (utcOffset env (startAt (time q)) - utcOffset env (endAt (time q)))
                   * 60000)"
  then have a: "long_getApplication lapps q = Inr la"
    and b: "et_dateBasedCreatedAtField (eventTable la) = Some ldb" and c: "ldb \<noteq> []"
    and e: "engaged = (valid_instant (startAt (time q)) \<and> valid_instant (endAt (time q))
           \<and> 86400000 \<le> (endAt (time q) - startAt (time q))
                 - (utcOffset env (startAt (time q)) - utcOffset env (endAt (time q)))
                   * 60000)"
    by simp_all
  have en: "engaged
      = number_ge (diff_day env (dayjs (endAt (time q))) (startAt (time q))) 1"
    unfolding number_ge_diff_day by (rule e)
  show "long_enableDateBasedOptimizedEventTable env lapps q
        = Inr engaged"
    using b c by (simp add: long_enable [OF a] truthy_def en)
  from long_range [OF a b c en] obtain lo hi where
    r: "long_buildOptimizedDateRangeQuery env lapps q
             = Inr (Sql (dq @ et_name (eventTable la) @ dq @ ''.'' @ dq
                         @ (if engaged then ldb else et_createdAtField (eventTable la))
                         @ dq @ '' BETWEEN ? AND ?'')
                     [BStr lo, BStr hi])"
    and d: "engaged \<longrightarrow>
          lo = dayjs_format_YMD env (dayjs_startOf_day env (dayjs (startAt (time q))))
          \<and> hi = dayjs_format_YMD env (dayjs_endOf_day env (dayjs (endAt (time q))))"
    by blast
  have "engaged \<longrightarrow>
                lo = (if valid_instant (startOf_day env (startAt (time q)))
                      then format_YMD env (startOf_day env (startAt (time q)))
                      else ''Invalid Date'')
                \<and> hi = (if valid_instant (endOf_day env (endAt (time q)))
                        then format_YMD env (endOf_day env (endAt (time q)))
                        else ''Invalid Date'')"
    using d e by (simp add: day_bound_start day_bound_end)
  with r show "\<exists>lo hi.
           long_buildOptimizedDateRangeQuery env lapps q
             = Inr (Sql (dq @ et_name (eventTable la) @ dq @ ''.'' @ dq
                         @ (if engaged then ldb else et_createdAtField (eventTable la))
                         @ dq @ '' BETWEEN ? AND ?'')
                     [BStr lo, BStr hi])
           \<and> (engaged \<longrightarrow>
                lo = (if valid_instant (startOf_day env (startAt (time q)))
                      then format_YMD env (startOf_day env (startAt (time q)))
                      else ''Invalid Date'')
                \<and> hi = (if valid_instant (endOf_day env (endAt (time q)))
                        then format_YMD env (endOf_day env (endAt (time q)))
                        else ''Invalid Date''))"
    by blast
  show "long_buildOptimizedDateQuerySql env lapps q
        = (if engaged
           then Inr (Sql (''DATE_FORMAT('' @ dq @ et_name (eventTable la) @ dq @ ''.'' @ dq
                          @ ldb @ dq @ '', '' @ sq @ format_text (time_unit (time q)) @ sq
                          @ '') date'') [])
           else ebind (long_getDateQuery
                         (dq @ et_name (eventTable la) @ dq @ ''.'' @ dq
                          @ et_createdAtField (eventTable la) @ dq)
                         (time_unit (time q))
                         (case time_timezone (time q) of None \<Rightarrow> ''UTC'' | Some z \<Rightarrow> z)
                         (Some (et_createdAtFieldType (eventTable la))))
                  (\<lambda>dateQuery. Inr (sql_tpl [dateQuery, raw '' date''])))"
    by (rule long_bucket [OF a b c en])
next
  assume h: "long_getApplication lapps q = Inr la
      \<and> et_dateBasedCreatedAtField (eventTable la) = Some ldb \<and> ldb \<noteq> []
      \<and> engaged = (valid_instant (startAt (time q)) \<and> valid_instant (endAt (time q))
           \<and> 86400000 \<le> (endAt (time q) - startAt (time q))
                 - (utcOffset env (startAt (time q)) - utcOffset env (endAt (time q)))
                   * 60000)"
    and v: "valid_instant (startAt (time q)) \<and> valid_instant (endAt (time q))
        \<and> utcOffset env (startAt (time q)) = utcOffset env (endAt (time q))"
  from h have e: "engaged = (valid_instant (startAt (time q)) \<and> valid_instant (endAt (time q))
           \<and> 86400000 \<le> (endAt (time q) - startAt (time q))
                 - (utcOffset env (startAt (time q)) - utcOffset env (endAt (time q)))
                   * 60000)"
    by simp
  show "engaged = window_spans_full_day (time q)"
    using e v by (simp add: window_spans_full_day_def)
next
  assume h: "wide_getApplication wapps q = Inr wa
      \<and> dateBasedCreatedAtField wa = Some wdb \<and> wdb \<noteq> []
      \<and> engaged = (valid_instant (startAt (time q)) \<and> valid_instant (endAt (time q))
           \<and> 86400000 \<le> (endAt (time q) - startAt (time q))
                 - (utcOffset env (startAt (time q)) - utcOffset env (endAt (time q)))
                   * 60000)"
  then have a: "wide_getApplication wapps q = Inr wa"
    and b: "dateBasedCreatedAtField wa = Some wdb" and c: "wdb \<noteq> []"
    and e: "engaged = (valid_instant (startAt (time q)) \<and> valid_instant (endAt (time q))
           \<and> 86400000 \<le> (endAt (time q) - startAt (time q))
                 - (utcOffset env (startAt (time q)) - utcOffset env (endAt (time q)))
                   * 60000)"
    by simp_all
  have en: "engaged
      = number_ge (diff_day env (dayjs (endAt (time q))) (startAt (time q))) 1"
    unfolding number_ge_diff_day by (rule e)
  show "wide_enableDateBasedOptimizedEventTable env wapps q
        = Inr engaged"
    using b c by (simp add: wide_enable [OF a] truthy_def en)
  from wide_range [OF a b c en] obtain lo hi where
    r: "wide_buildOptimizedDateRangeQuery env wapps q
             = Inr (Sql (dq @ (if engaged then wdb else createdAtField wa)
                         @ dq @ '' BETWEEN ? AND ?'')
                     [BStr lo, BStr hi])"
    and d: "engaged \<longrightarrow>
          lo = dayjs_format_YMD env (dayjs_startOf_day env (dayjs (startAt (time q))))
          \<and> hi = dayjs_format_YMD env (dayjs_endOf_day env (dayjs (endAt (time q))))"
    by blast
  have "engaged \<longrightarrow>
                lo = (if valid_instant (startOf_day env (startAt (time q)))
                      then format_YMD env (startOf_day env (startAt (time q)))
                      else ''Invalid Date'')
                \<and> hi = (if valid_instant (endOf_day env (endAt (time q)))
                        then format_YMD env (endOf_day env (endAt (time q)))
                        else ''Invalid Date'')"
    using d e by (simp add: day_bound_start day_bound_end)
  with r show "\<exists>lo hi.
           wide_buildOptimizedDateRangeQuery env wapps q
             = Inr (Sql (dq @ (if engaged then wdb else createdAtField wa)
                         @ dq @ '' BETWEEN ? AND ?'')
                     [BStr lo, BStr hi])
           \<and> (engaged \<longrightarrow>
                lo = (if valid_instant (startOf_day env (startAt (time q)))
                      then format_YMD env (startOf_day env (startAt (time q)))
                      else ''Invalid Date'')
                \<and> hi = (if valid_instant (endOf_day env (endAt (time q)))
                        then format_YMD env (endOf_day env (endAt (time q)))
                        else ''Invalid Date''))"
    by blast
  show "wide_buildOptimizedDateQuerySql env wapps q
        = (if engaged
           then Inr (Sql (''DATE_FORMAT('' @ dq @ wdb @ dq @ '', '' @ sq
                          @ format_text (time_unit (time q)) @ sq @ '') date'') [])
           else ebind (wide_getDateQuery (dq @ createdAtField wa @ dq)
                         (time_unit (time q))
                         (case time_timezone (time q) of None \<Rightarrow> ''UTC'' | Some z \<Rightarrow> z)
                         (Some (createdAtFieldType wa)))
                  (\<lambda>dateQuery. Inr (sql_tpl [dateQuery, raw '' date''])))"
    by (rule wide_bucket [OF a b c en])
next
  assume h: "wide_getApplication wapps q = Inr wa
      \<and> dateBasedCreatedAtField wa = Some wdb \<and> wdb \<noteq> []
      \<and> engaged = (valid_instant (startAt (time q)) \<and> valid_instant (endAt (time q))
           \<and> 86400000 \<le> (endAt (time q) - startAt (time q))
                 - (utcOffset env (startAt (time q)) - utcOffset env (endAt (time q)))
                   * 60000)"
    and v: "valid_instant (startAt (time q)) \<and> valid_instant (endAt (time q))
        \<and> utcOffset env (startAt (time q)) = utcOffset env (endAt (time q))"
  from h have e: "engaged = (valid_instant (startAt (time q)) \<and> valid_instant (endAt (time q))
           \<and> 86400000 \<le> (endAt (time q) - startAt (time q))
                 - (utcOffset env (startAt (time q)) - utcOffset env (endAt (time q)))
                   * 60000)"
    by simp
  show "engaged = window_spans_full_day (time q)"
    using e v by (simp add: window_spans_full_day_def)
qed

text \<open>The query of the builder's test on a server in UTC: a window of exactly one day.\<close>

theorem date_based_column_offset_corrected_witness:
  "long_buildOptimizedDateRangeQuery utc_dayjs [example_application] example_query
       = Inr (Sql (dq @ ''events'' @ dq @ ''.'' @ dq @ ''event_date'' @ dq
                   @ '' BETWEEN ? AND ?'')
               [BStr ''2025-08-01'', BStr ''2025-08-02''])
   \<and> long_buildOptimizedDateQuerySql utc_dayjs [example_application] example_query
       = Inr (Sql (''DATE_FORMAT('' @ dq @ ''events'' @ dq @ ''.'' @ dq @ ''event_date'' @ dq
                   @ '', '' @ sq @ ''%Y-%m-%d'' @ sq @ '') date'') [])
   \<and> wide_buildOptimizedDateRangeQuery utc_dayjs [example_wide_application] example_query
       = Inr (Sql (dq @ ''created_date'' @ dq @ '' BETWEEN ? AND ?'')
               [BStr ''2025-08-01'', BStr ''2025-08-02''])
   \<and> wide_buildOptimizedDateQuerySql utc_dayjs [example_wide_application] example_query
       = Inr (Sql (''DATE_FORMAT('' @ dq @ ''created_date'' @ dq
                   @ '', '' @ sq @ ''%Y-%m-%d'' @ sq @ '') date'') [])
   \<and> window_spans_full_day (time example_query)"
proof -
  note la = long_getApplication_example
  note wa = wide_getApplication_example
  have ldb: "et_dateBasedCreatedAtField (eventTable example_application) = Some ''event_date''"
    by (simp add: example_application_def)
  have wdb: "dateBasedCreatedAtField example_wide_application = Some ''created_date''"
    by (simp add: example_wide_application_def)
  have eng: "True = (valid_instant (startAt (time example_query))
           \<and> valid_instant (endAt (time example_query))
           \<and> 86400000 \<le> (endAt (time example_query) - startAt (time example_query))
                 - (utcOffset utc_dayjs (startAt (time example_query))
                    - utcOffset utc_dayjs (endAt (time example_query))) * 60000)"
    by (simp add: example_times valid_instant_def utc_dayjs_def)
  have vs: "valid_instant (startAt (time example_query))"
    "valid_instant (endAt (time example_query))"
    "utcOffset utc_dayjs (startAt (time example_query))
       = utcOffset utc_dayjs (endAt (time example_query))"
    by (simp_all add: example_times valid_instant_def utc_dayjs_def)
  have lo: "(if valid_instant (startOf_day utc_dayjs (startAt (time example_query)))
             then format_YMD utc_dayjs (startOf_day utc_dayjs (startAt (time example_query)))
             else ''Invalid Date'') = ''2025-08-01''"
    by (simp add: example_times valid_instant_def utc_dayjs_def utc_YMD_ex1)
  have hi: "(if valid_instant (endOf_day utc_dayjs (endAt (time example_query)))
             then format_YMD utc_dayjs (endOf_day utc_dayjs (endAt (time example_query)))
             else ''Invalid Date'') = ''2025-08-02''"
    by (simp add: example_times valid_instant_def utc_dayjs_def utc_YMD_ex3)
  have names: "et_name (eventTable example_application) = ''events''"
    by (simp add: example_application_def)
  have fmt: "format_text (time_unit (time example_query)) = ''%Y-%m-%d''"
    by (simp add: example_query_def format_text_def MYSQL_DATE_FORMATS_def)
  have ne: "''event_date'' \<noteq> []" "''created_date'' \<noteq> []"
    by simp_all
  note t = date_based_column_used_iff_offset_corrected_day
        [where lapps = "[example_application]" and q = example_query
           and la = example_application and ldb = "''event_date''" and env = utc_dayjs
           and wapps = "[example_wide_application]" and wa = example_wide_application
           and wdb = "''created_date''" and engaged = True]
  from t la ldb ne(1) eng have l: "(\<exists>lo hi.
           long_buildOptimizedDateRangeQuery utc_dayjs [example_application] example_query
             = Inr (Sql (dq @ ''events'' @ dq @ ''.'' @ dq @ ''event_date''
                         @ dq @ '' BETWEEN ? AND ?'')
                     [BStr lo, BStr hi])
           \<and> lo = ''2025-08-01'' \<and> hi = ''2025-08-02'')
      \<and> long_buildOptimizedDateQuerySql utc_dayjs [example_application] example_query
       = Inr (Sql (''DATE_FORMAT('' @ dq @ ''events'' @ dq @ ''.'' @ dq @ ''event_date'' @ dq
                   @ '', '' @ sq @ ''%Y-%m-%d'' @ sq @ '') date'') [])
      \<and> window_spans_full_day (time example_query)"
    by (simp add: lo hi names fmt vs)
  from t wa wdb ne(2) eng have w: "(\<exists>lo hi.
           wide_buildOptimizedDateRangeQuery utc_dayjs [example_wide_application] example_query
             = Inr (Sql (dq @ ''created_date'' @ dq @ '' BETWEEN ? AND ?'')
                     [BStr lo, BStr hi])
           \<and> lo = ''2025-08-01'' \<and> hi = ''2025-08-02'')
      \<and> wide_buildOptimizedDateQuerySql utc_dayjs [example_wide_application] example_query
       = Inr (Sql (''DATE_FORMAT('' @ dq @ ''created_date'' @ dq
                   @ '', '' @ sq @ ''%Y-%m-%d'' @ sq @ '') date'') [])"
    by (simp add: lo hi fmt vs)
  from l w show ?thesis
    by auto
qed

text \<open>
  The window alone does not decide. On a server in New York a window of 23 hours across
  the start of daylight saving time engages the date-based column, and a window of 24
  hours across its end does not. An end instant beyond the \<open>Date\<close> range never engages
  it: the raw column is read and the bound is \<open>NaN\<close>.
\<close>

theorem date_based_column_window_counterexample:
  "\<not> window_spans_full_day
       \<lparr> startAt = 1741496400000, endAt = 1741579200000, time_unit = ''day'',
         time_timezone = None \<rparr>
   \<and> long_enableDateBasedOptimizedEventTable eastern_dayjs [example_application]
       (example_query\<lparr>time := \<lparr> startAt = 1741496400000, endAt = 1741579200000,
                                   time_unit = ''day'', time_timezone = None \<rparr>\<rparr>)
     = Inr True
   \<and> long_buildOptimizedDateRangeQuery eastern_dayjs [example_application]
       (example_query\<lparr>time := \<lparr> startAt = 1741496400000, endAt = 1741579200000,
                                   time_unit = ''day'', time_timezone = None \<rparr>\<rparr>)
     = Inr (Sql (dq @ ''events'' @ dq @ ''.'' @ dq @ ''event_date'' @ dq
                 @ '' BETWEEN ? AND ?'')
             [BStr ''2025-03-09'', BStr ''2025-03-10''])
   \<and> window_spans_full_day
       \<lparr> startAt = 1762056000000, endAt = 1762142400000, time_unit = ''day'',
         time_timezone = None \<rparr>
   \<and> long_enableDateBasedOptimizedEventTable eastern_dayjs [example_application]
       (example_query\<lparr>time := \<lparr> startAt = 1762056000000, endAt = 1762142400000,
                                   time_unit = ''day'', time_timezone = None \<rparr>\<rparr>)
     = Inr False
   \<and> long_buildOptimizedDateRangeQuery eastern_dayjs [example_application]
       (example_query\<lparr>time := \<lparr> startAt = 1762056000000, endAt = 1762142400000,
                                   time_unit = ''day'', time_timezone = None \<rparr>\<rparr>)
     = Inr (Sql (dq @ ''events'' @ dq @ ''.'' @ dq @ ''event_timestamp'' @ dq
                 @ '' BETWEEN ? AND ?'')
             [BStr ''1762056000000'', BStr ''1762142400000''])
   \<and> window_spans_full_day
       \<lparr> startAt = 0, endAt = 8640000000000001, time_unit = ''day'',
         time_timezone = None \<rparr>
   \<and> long_enableDateBasedOptimizedEventTable utc_dayjs [example_application]
       (example_query\<lparr>time := \<lparr> startAt = 0, endAt = 8640000000000001,
                                   time_unit = ''day'', time_timezone = None \<rparr>\<rparr>)
     = Inr False
   \<and> long_buildOptimizedDateRangeQuery utc_dayjs [example_application]
       (example_query\<lparr>time := \<lparr> startAt = 0, endAt = 8640000000000001,
                                   time_unit = ''day'', time_timezone = None \<rparr>\<rparr>)
     = Inr (Sql (dq @ ''events'' @ dq @ ''.'' @ dq @ ''event_timestamp'' @ dq
                 @ '' BETWEEN ? AND ?'')
             [BStr ''0'', BStr ''NaN''])"
proof -
  let ?t1 = "\<lparr> startAt = 1741496400000, endAt = 1741579200000, time_unit = ''day'',
               time_timezone = None \<rparr>"
  let ?t2 = "\<lparr> startAt = 1762056000000, endAt = 1762142400000, time_unit = ''day'',
               time_timezone = None \<rparr>"
  let ?t3 = "\<lparr> startAt = 0, endAt = 8640000000000001, time_unit = ''day'',
               time_timezone = None \<rparr>"
  have app: "long_getApplication [example_application] (example_query\<lparr>time := t\<rparr>)
               = Inr example_application" for t
    by (simp add: long_getApplication_def example_application_def example_query_def)
  have b: "et_dateBasedCreatedAtField (eventTable example_application) = Some ''event_date''"
    by (simp add: example_application_def)
  have c: "''event_date'' \<noteq> []"
    by simp
  have ty: "et_createdAtFieldType (eventTable example_application) = ''timestampMs''"
    by (simp add: example_application_def)
  have names: "et_name (eventTable example_application) = ''events''"
    "et_createdAtField (eventTable example_application) = ''event_timestamp''"
    by (simp_all add: example_application_def)
  have e1: "True = number_ge (diff_day eastern_dayjs
                      (dayjs (endAt (time (example_query\<lparr>time := ?t1\<rparr>))))
                      (startAt (time (example_query\<lparr>time := ?t1\<rparr>)))) 1"
    by (simp add: number_ge_diff_day valid_instant_def eastern_dayjs_def eastern_utcOffset_def)
  have e2: "False = number_ge (diff_day eastern_dayjs
                      (dayjs (endAt (time (example_query\<lparr>time := ?t2\<rparr>))))
                      (startAt (time (example_query\<lparr>time := ?t2\<rparr>)))) 1"
    by (simp add: number_ge_diff_day valid_instant_def eastern_dayjs_def eastern_utcOffset_def)
  have e3: "False = number_ge (diff_day utc_dayjs
                      (dayjs (endAt (time (example_query\<lparr>time := ?t3\<rparr>))))
                      (startAt (time (example_query\<lparr>time := ?t3\<rparr>)))) 1"
    by (simp add: number_ge_diff_day valid_instant_def)
  have w1: "\<not> window_spans_full_day ?t1" and w2: "window_spans_full_day ?t2"
    and w3: "window_spans_full_day ?t3"
    by (simp_all add: window_spans_full_day_def)
  have n1: "long_enableDateBasedOptimizedEventTable eastern_dayjs [example_application]
       (example_query\<lparr>time := ?t1\<rparr>) = Inr True"
    using e1 by (simp add: long_enable [OF app] b truthy_def)
  have n2: "long_enableDateBasedOptimizedEventTable eastern_dayjs [example_application]
       (example_query\<lparr>time := ?t2\<rparr>) = Inr False"
    using e2 by (simp add: long_enable [OF app] b truthy_def)
  have n3: "long_enableDateBasedOptimizedEventTable utc_dayjs [example_application]
       (example_query\<lparr>time := ?t3\<rparr>) = Inr False"
    using e3 by (simp add: long_enable [OF app] b truthy_def)
  have r1: "long_buildOptimizedDateRangeQuery eastern_dayjs [example_application]
       (example_query\<lparr>time := ?t1\<rparr>)
     = Inr (Sql (dq @ ''events'' @ dq @ ''.'' @ dq @ ''event_date'' @ dq
                 @ '' BETWEEN ? AND ?'')
             [BStr ''2025-03-09'', BStr ''2025-03-10''])"
    using long_range [OF app b c e1] by (auto simp: names eastern_bounds)
  have r2: "long_buildOptimizedDateRangeQuery eastern_dayjs [example_application]
       (example_query\<lparr>time := ?t2\<rparr>)
     = Inr (Sql (dq @ ''events'' @ dq @ ''.'' @ dq @ ''event_timestamp'' @ dq
                 @ '' BETWEEN ? AND ?'')
             [BStr ''1762056000000'', BStr ''1762142400000''])"
    using long_range [OF app b c e2] by (auto simp: names ty decimal_examples)
  have r3: "long_buildOptimizedDateRangeQuery utc_dayjs [example_application]
       (example_query\<lparr>time := ?t3\<rparr>)
     = Inr (Sql (dq @ ''events'' @ dq @ ''.'' @ dq @ ''event_timestamp'' @ dq
                 @ '' BETWEEN ? AND ?'')
             [BStr ''0'', BStr ''NaN''])"
    using long_range [OF app b c e3] by (auto simp: names ty decimal_examples)
  from w1 n1 r1 w2 n2 r2 w3 n3 r3 show ?thesis
    by (intro conjI)
qed

section \<open>The sentinel metric\<close>

text \<open>
  C4. When every metric of a non-empty list is named \<open>$all_event\<close>, the event-name
  condition of the long-table WHERE clause is a parenthesised disjunction of \<open>1 = 1\<close>,
  one per metric, with no bound value: no row is excluded by its event name. With
  \<open>math = events\<close> each such metric is selected as \<open>count(1)\<close>. The wide-table WHERE
  clause does not depend on the metrics at all.
\<close>

theorem all_event_where_is_tautology:
  "(metrics q \<noteq> [] \<and> (\<forall>m\<in>set (metrics q). m_name m = ''$all_event'')
      \<and> long_buildOptimizedDateRangeQuery env apps q = Inr r \<longrightarrow>
      long_buildWhereQueryArr env apps q
        = Inr [r, Sql (''('' @ tautologies (length (metrics q)) @ '')'') []])
   \<and> ((\<forall>m\<in>set (metrics q). m_name m = ''$all_event'' \<and> m_math m = ''events'')
      \<and> long_getApplication apps q = Inr app \<longrightarrow>
      long_buildSelectQueryArr apps q
        = Inr (replicate (length (metrics q))
                 (Some (Sql (''count(1) as '' @ dq @ ''$all_event'' @ dq) []))))
   \<and> wide_buildWhereQueryArr common env wapps (q\<lparr>metrics := ms\<rparr>)
        = wide_buildWhereQueryArr common env wapps q"
proof (intro conjI impI)
  assume "metrics q \<noteq> [] \<and> (\<forall>m\<in>set (metrics q). m_name m = ''$all_event'')
      \<and> long_buildOptimizedDateRangeQuery env apps q = Inr r"
  then have ne: "metrics q \<noteq> []"
    and all: "\<forall>m\<in>set (metrics q). m_name m = ''$all_event''"
    and r: "long_buildOptimizedDateRangeQuery env apps q = Inr r"
    by simp_all
  show "long_buildWhereQueryArr env apps q
        = Inr [r, Sql (''('' @ tautologies (length (metrics q)) @ '')'') []]"
    by (rule long_where_all_event [OF ne all r])
next
  assume "(\<forall>m\<in>set (metrics q). m_name m = ''$all_event'' \<and> m_math m = ''events'')
      \<and> long_getApplication apps q = Inr app"
  then have all: "\<forall>m\<in>set (metrics q). m_name m = ''$all_event'' \<and> m_math m = ''events''"
    and a: "long_getApplication apps q = Inr app"
    by simp_all
  show "long_buildSelectQueryArr apps q
        = Inr (replicate (length (metrics q))
                 (Some (Sql (''count(1) as '' @ dq @ ''$all_event'' @ dq) [])))"
    by (rule long_select_all_event [OF all a])
next
  show "wide_buildWhereQueryArr common env wapps (q\<lparr>metrics := ms\<rparr>)
        = wide_buildWhereQueryArr common env wapps q"
    by (rule wide_where_ignores_metrics)
qed

text \<open>The query of the builder's test: one sentinel metric.\<close>

theorem all_event_where_witness:
  "metrics example_query = [\<lparr> m_name = ''$all_event'', m_math = ''events'' \<rparr>]
   \<and> long_buildWhereQueryArr utc_dayjs [example_application] example_query
       = Inr [Sql (dq @ ''events'' @ dq @ ''.'' @ dq @ ''event_date'' @ dq
                   @ '' BETWEEN ? AND ?'')
                [BStr ''2025-08-01'', BStr ''2025-08-02''],
              Sql ''(1 = 1)'' []]
   \<and> long_buildSelectQueryArr [example_application] example_query
       = Inr [Some (Sql (''count(1) as '' @ dq @ ''$all_event'' @ dq) [])]"
proof -
  have ms: "metrics example_query = [\<lparr> m_name = ''$all_event'', m_math = ''events'' \<rparr>]"
    by (simp add: example_query_def)
  show ?thesis
    using ms long_range_example long_getApplication_example
      all_event_where_is_tautology
        [of example_query utc_dayjs "[example_application]" _ example_application]
    by simp
qed

section \<open>Counting sessions\<close>

text \<open>
  C2, as the code has it. For a metric with \<open>math = sessions\<close> the wide-table builder
  counts the distinct values of the application's \<open>distinctField\<close>, restricted by
  \<open>case WHEN "name" = ?\<close> with the metric's name bound, and unrestricted for
  \<open>$all_event\<close>. The long-table builder, whose schema declares no such field, emits no
  aggregate for such a metric: the entry is \<open>null\<close>.
\<close>

theorem sessions_distinct_count_wide_only:
  "(wide_getApplication apps q = Inr app \<longrightarrow>
      (\<exists>cols. wide_buildSelectQueryArr apps q = Inr cols
         \<and> length cols = length (metrics q)
         \<and> (\<forall>i<length (metrics q). m_math (metrics q ! i) = ''sessions'' \<longrightarrow>
              cols ! i
                = Some (if m_name (metrics q ! i) = ''$all_event''
                        then Sql (''count(distinct '' @ dq @ distinctField app @ dq
                                  @ '') as '' @ dq @ ''$all_event'' @ dq) []
                        else Sql (''count(distinct case WHEN '' @ dq @ m_name (metrics q ! i)
                                  @ dq @ '' = ? THEN '' @ dq @ distinctField app @ dq
                                  @ '' END) as '' @ dq @ m_name (metrics q ! i) @ dq)
                                 [BStr (m_name (metrics q ! i))]))))
   \<and> (long_getApplication lapps q = Inr la \<longrightarrow>
      (\<exists>cols. long_buildSelectQueryArr lapps q = Inr cols
         \<and> length cols = length (metrics q)
         \<and> (\<forall>i<length (metrics q). m_math (metrics q ! i) = ''sessions'' \<longrightarrow>
              cols ! i = None)))"
proof (intro conjI impI)
  assume a: "wide_getApplication apps q = Inr app"
  have r: "wide_buildSelectQueryArr apps q = Inr (map (wide_select_item app) (metrics q))"
    by (simp add: wide_buildSelectQueryArr_def a ebind_Inr)
  show "\<exists>cols. wide_buildSelectQueryArr apps q = Inr cols
         \<and> length cols = length (metrics q)
         \<and> (\<forall>i<length (metrics q). m_math (metrics q ! i) = ''sessions'' \<longrightarrow>
              cols ! i
                = Some (if m_name (metrics q ! i) = ''$all_event''
                        then Sql (''count(distinct '' @ dq @ distinctField app @ dq
                                  @ '') as '' @ dq @ ''$all_event'' @ dq) []
                        else Sql (''count(distinct case WHEN '' @ dq @ m_name (metrics q ! i)
                                  @ dq @ '' = ? THEN '' @ dq @ distinctField app @ dq
                                  @ '' END) as '' @ dq @ m_name (metrics q ! i) @ dq)
                                 [BStr (m_name (metrics q ! i))]))"
    unfolding r by (intro exI conjI allI impI, rule refl) (simp_all add: wide_select_item_sessions)
next
  assume a: "long_getApplication lapps q = Inr la"
  have r: "long_buildSelectQueryArr lapps q
             = Inr (map (long_select_item (eventTable la)) (metrics q))"
    by (simp add: long_buildSelectQueryArr_def long_getEventTable_def a ebind_Inr)
  show "\<exists>cols. long_buildSelectQueryArr lapps q = Inr cols
         \<and> length cols = length (metrics q)
         \<and> (\<forall>i<length (metrics q). m_math (metrics q ! i) = ''sessions'' \<longrightarrow>
              cols ! i = None)"
    unfolding r by (intro exI conjI allI impI, rule refl) (simp_all add: long_select_item_sessions)
qed

text \<open>
  Not every builder counts sessions: the long-table builder gives \<open>null\<close> for a
  sessions metric.
\<close>

theorem sessions_long_table_counterexample:
  "long_buildSelectQueryArr [example_application]
     (example_query\<lparr>metrics := [\<lparr> m_name = ''signup'', m_math = ''sessions'' \<rparr>]\<rparr>)
   = Inr [None]"
  by (simp add: long_buildSelectQueryArr_def long_getEventTable_def long_getApplication_def
      example_application_def example_query_def ebind_Inr long_select_item_def)

text \<open>Both builders on two sessions metrics, a named one and the sentinel.\<close>

theorem sessions_distinct_count_witness:
  "wide_getApplication [example_wide_application]
     (example_query\<lparr>metrics := [\<lparr> m_name = ''signup'', m_math = ''sessions'' \<rparr>,
                                 \<lparr> m_name = ''$all_event'', m_math = ''sessions'' \<rparr>]\<rparr>)
     = Inr example_wide_application
   \<and> wide_buildSelectQueryArr [example_wide_application]
       (example_query\<lparr>metrics := [\<lparr> m_name = ''signup'', m_math = ''sessions'' \<rparr>,
                                   \<lparr> m_name = ''$all_event'', m_math = ''sessions'' \<rparr>]\<rparr>)
     = Inr [Some (Sql (''count(distinct case WHEN '' @ dq @ ''signup'' @ dq @ '' = ? THEN ''
                       @ dq @ ''session_id'' @ dq @ '' END) as '' @ dq @ ''signup'' @ dq)
                      [BStr ''signup'']),
            Some (Sql (''count(distinct '' @ dq @ ''session_id'' @ dq @ '') as '' @ dq
                       @ ''$all_event'' @ dq) [])]
   \<and> long_buildSelectQueryArr [example_application]
       (example_query\<lparr>metrics := [\<lparr> m_name = ''signup'', m_math = ''sessions'' \<rparr>,
                                   \<lparr> m_name = ''$all_event'', m_math = ''sessions'' \<rparr>]\<rparr>)
     = Inr [None, None]"
proof -
  let ?q = "example_query\<lparr>metrics := [\<lparr> m_name = ''signup'', m_math = ''sessions'' \<rparr>,
                                     \<lparr> m_name = ''$all_event'', m_math = ''sessions'' \<rparr>]\<rparr>"
  have wa: "wide_getApplication [example_wide_application] ?q = Inr example_wide_application"
    by (simp add: wide_getApplication_def example_wide_application_def example_query_def)
  have la: "long_getApplication [example_application] ?q = Inr example_application"
    by (simp add: long_getApplication_def example_application_def example_query_def)
  have df: "distinctField example_wide_application = ''session_id''"
    by (simp add: example_wide_application_def)
  from sessions_distinct_count_wide_only
         [of "[example_wide_application]" ?q example_wide_application
             "[example_application]" example_application] wa la
  obtain wcols lcols where
    w: "wide_buildSelectQueryArr [example_wide_application] ?q = Inr wcols"
      "length wcols = 2"
      "\<forall>i<2. m_math (metrics ?q ! i) = ''sessions'' \<longrightarrow>
              wcols ! i
                = Some (if m_name (metrics ?q ! i) = ''$all_event''
                        then Sql (''count(distinct '' @ dq @ ''session_id'' @ dq
                                  @ '') as '' @ dq @ ''$all_event'' @ dq) []
                        else Sql (''count(distinct case WHEN '' @ dq @ m_name (metrics ?q ! i)
                                  @ dq @ '' = ? THEN '' @ dq @ ''session_id'' @ dq
                                  @ '' END) as '' @ dq @ m_name (metrics ?q ! i) @ dq)
                                 [BStr (m_name (metrics ?q ! i))])"
    and l: "long_buildSelectQueryArr [example_application] ?q = Inr lcols"
      "length lcols = 2"
      "\<forall>i<2. m_math (metrics ?q ! i) = ''sessions'' \<longrightarrow> lcols ! i = None"
    by (auto simp: df)
  from w(3) have w0: "wcols ! 0 = Some (Sql (''count(distinct case WHEN '' @ dq @ ''signup'' @ dq @ '' = ? THEN ''
                       @ dq @ ''session_id'' @ dq @ '' END) as '' @ dq @ ''signup'' @ dq)
                      [BStr ''signup''])"
    and w1: "wcols ! 1 = Some (Sql (''count(distinct '' @ dq @ ''session_id'' @ dq @ '') as '' @ dq
                       @ ''$all_event'' @ dq) [])"
    by simp_all
  from l(3) have l0: "lcols ! 0 = None" and l1: "lcols ! 1 = None"
    by simp_all
  have two: "xs = [xs ! 0, xs ! 1]" if "length xs = 2" for xs :: "'a list"
    using that by (cases xs; cases "tl xs") auto
  have "wcols = [wcols ! 0, wcols ! 1]" "lcols = [lcols ! 0, lcols ! 1]"
    by (rule two [OF w(2)], rule two [OF l(2)])
  with w0 w1 l0 l1 w(1) l(1) wa show ?thesis
    by simp
qed

section \<open>Group columns and their aliases\<close>

text \<open>
  C5. Whenever a builder produces the group columns, they are aliased, in order, by the
  aliases of the convention: for each group without \<open>customGroups\<close> one column aliased
  \<open>%\<close> and the group value, and for each entry of \<open>customGroups\<close> one column aliased
  \<open>%\<close>, group value, operator and filter value separated by \<open>|\<close>. Every alias
  starts with \<open>%\<close>. This holds for the long-table and the wide-table builder.
\<close>

theorem group_columns_follow_alias_convention:
  "(long_buildGroupSelectQueryArr common toStr apps q = Inr cols \<longrightarrow>
      list_all2 has_alias cols (concat (map (group_aliases toStr) (groups q))))
   \<and> (wide_buildGroupSelectQueryArr common toStr q = Inr wcols \<longrightarrow>
      list_all2 has_alias wcols (concat (map (group_aliases toStr) (groups q))))
   \<and> (\<forall>alias \<in> set (concat (map (group_aliases toStr) (groups q))). take 1 alias = ''%'')"
  by (auto intro: long_group_select_aliases wide_group_select_aliases
      dest: group_aliases_prefix)

text \<open>Both builders on a plain group and a group with two custom groups.\<close>

theorem group_columns_alias_witness:
  "long_buildGroupSelectQueryArr example_common id [example_application]
     (example_query\<lparr>groups := example_groups\<rparr>)
   = Inr [Sql (dq @ ''event_parameters'' @ dq @ ''.'' @ dq @ ''event_param_value'' @ dq
               @ '' as '' @ dq @ ''%country'' @ dq) [],
          Sql (dq @ ''event_parameters'' @ dq @ ''.'' @ dq @ ''event_param_value'' @ dq
               @ '' > ? as '' @ dq @ ''%age|greater than|18'' @ dq) [BVal ''18''],
          Sql (dq @ ''event_parameters'' @ dq @ ''.'' @ dq @ ''event_param_value'' @ dq
               @ '' = ? as '' @ dq @ ''%age|equals|65'' @ dq) [BVal ''65'']]
   \<and> list_all2 has_alias
       [Sql (dq @ ''event_parameters'' @ dq @ ''.'' @ dq @ ''event_param_value'' @ dq
               @ '' as '' @ dq @ ''%country'' @ dq) [],
        Sql (dq @ ''event_parameters'' @ dq @ ''.'' @ dq @ ''event_param_value'' @ dq
               @ '' > ? as '' @ dq @ ''%age|greater than|18'' @ dq) [BVal ''18''],
        Sql (dq @ ''event_parameters'' @ dq @ ''.'' @ dq @ ''event_param_value'' @ dq
               @ '' = ? as '' @ dq @ ''%age|equals|65'' @ dq) [BVal ''65'']]
       [''%country'', ''%age|greater than|18'', ''%age|equals|65'']
   \<and> wide_buildGroupSelectQueryArr example_common id
       (example_query\<lparr>groups := example_groups\<rparr>)
     = Inr [Sql (''country as '' @ dq @ ''%country'' @ dq) [],
            Sql (dq @ ''age'' @ dq @ '' > ? as '' @ dq @ ''%age|greater than|18'' @ dq)
              [BVal ''18''],
            Sql (dq @ ''age'' @ dq @ '' = ? as '' @ dq @ ''%age|equals|65'' @ dq)
              [BVal ''65'']]
   \<and> list_all2 has_alias
       [Sql (''country as '' @ dq @ ''%country'' @ dq) [],
        Sql (dq @ ''age'' @ dq @ '' > ? as '' @ dq @ ''%age|greater than|18'' @ dq)
          [BVal ''18''],
        Sql (dq @ ''age'' @ dq @ '' = ? as '' @ dq @ ''%age|equals|65'' @ dq)
          [BVal ''65'']]
       [''%country'', ''%age|greater than|18'', ''%age|equals|65'']"
proof -
  have al: "concat (map (group_aliases id) (groups (example_query\<lparr>groups := example_groups\<rparr>)))
      = [''%country'', ''%age|greater than|18'', ''%age|equals|65'']"
    by (simp add: group_aliases_def example_groups_def)
  note t = group_columns_follow_alias_convention
             [of example_common id "[example_application]"
                 "example_query\<lparr>groups := example_groups\<rparr>", unfolded al]
  from t long_groups_example wide_groups_example show ?thesis
    by blast
qed

section \<open>Reserved characters in group values\<close>

text \<open>
  C6, as the code has it. Neither builder escapes or rejects anything on account of its
  characters, for any list of groups. The wide-table builder returns the group columns
  whenever the filter compiler accepts every custom group, and the long-table builder
  whenever moreover the application resolves; the columns are then aliased by the
  convention's aliases, which carry group value, operator and filter value as they are.
  A builder fails only with the error of the filter compiler on some custom group or,
  for the long table, with the error of the application lookup. Two different groups
  can so get the same alias.
\<close>

theorem reserved_characters_neither_escaped_nor_rejected:
  "((\<forall>g\<in>set (groups q). \<forall>cgs. customGroups g = Some cgs \<longrightarrow>
       (\<forall>cg\<in>set cgs. \<exists>p. common (g_type g) (filterOperator cg) (filterValue cg)
                               (Sql (dq @ g_value g @ dq) []) = Inr p))
     \<longrightarrow> (\<exists>cols. wide_buildGroupSelectQueryArr common toStr q = Inr cols
            \<and> list_all2 has_alias cols (concat (map (group_aliases toStr) (groups q)))))
   \<and> (wide_buildGroupSelectQueryArr common toStr q = Inl e
     \<longrightarrow> (\<exists>g\<in>set (groups q). \<exists>cgs. customGroups g = Some cgs
            \<and> (\<exists>cg\<in>set cgs. common (g_type g) (filterOperator cg) (filterValue cg)
                                (Sql (dq @ g_value g @ dq) []) = Inl e)))
   \<and> (long_getApplication apps q = Inr app
      \<and> (\<forall>g\<in>set (groups q). \<forall>cgs. customGroups g = Some cgs \<longrightarrow>
           (\<forall>cg\<in>set cgs. \<exists>p. long_buildFilterQueryOperator common apps q (g_type g)
                                   (filterOperator cg) (filterValue cg) = Inr p))
     \<longrightarrow> (\<exists>cols. long_buildGroupSelectQueryArr common toStr apps q = Inr cols
            \<and> list_all2 has_alias cols (concat (map (group_aliases toStr) (groups q)))))
   \<and> (long_buildGroupSelectQueryArr common toStr apps q = Inl e
     \<longrightarrow> long_getApplication apps q = Inl e
         \<or> (\<exists>g\<in>set (groups q). \<exists>cgs. customGroups g = Some cgs
              \<and> (\<exists>cg\<in>set cgs. \<exists>vf. long_getValueField apps q (g_type g) = Inr vf
                    \<and> common (g_type g) (filterOperator cg) (filterValue cg) vf = Inl e)))
   \<and> group_aliases id
        \<lparr> g_value = ''a'', g_type = t,
          customGroups = Some [\<lparr> filterOperator = ''equals'',
                                 filterValue = ''b|equals|c'' \<rparr>] \<rparr>
     = group_aliases id
        \<lparr> g_value = ''a|equals|b'', g_type = t,
          customGroups = Some [\<lparr> filterOperator = ''equals'', filterValue = ''c'' \<rparr>] \<rparr>"
proof (intro conjI)
  show "(\<forall>g\<in>set (groups q). \<forall>cgs. customGroups g = Some cgs \<longrightarrow>
       (\<forall>cg\<in>set cgs. \<exists>p. common (g_type g) (filterOperator cg) (filterValue cg)
                               (Sql (dq @ g_value g @ dq) []) = Inr p))
     \<longrightarrow> (\<exists>cols. wide_buildGroupSelectQueryArr common toStr q = Inr cols
            \<and> list_all2 has_alias cols (concat (map (group_aliases toStr) (groups q))))"
  proof
    assume "\<forall>g\<in>set (groups q). \<forall>cgs. customGroups g = Some cgs \<longrightarrow>
       (\<forall>cg\<in>set cgs. \<exists>p. common (g_type g) (filterOperator cg) (filterValue cg)
                               (Sql (dq @ g_value g @ dq) []) = Inr p)"
    from wide_group_select_total [OF this] obtain cols where
      c: "wide_buildGroupSelectQueryArr common toStr q = Inr cols"
      by blast
    from c wide_group_select_aliases [OF c] show
      "\<exists>cols. wide_buildGroupSelectQueryArr common toStr q = Inr cols
            \<and> list_all2 has_alias cols (concat (map (group_aliases toStr) (groups q)))"
      by blast
  qed
  show "wide_buildGroupSelectQueryArr common toStr q = Inl e
     \<longrightarrow> (\<exists>g\<in>set (groups q). \<exists>cgs. customGroups g = Some cgs
            \<and> (\<exists>cg\<in>set cgs. common (g_type g) (filterOperator cg) (filterValue cg)
                                (Sql (dq @ g_value g @ dq) []) = Inl e))"
    by (rule impI) (rule wide_group_select_Inl)
  show "long_getApplication apps q = Inr app
      \<and> (\<forall>g\<in>set (groups q). \<forall>cgs. customGroups g = Some cgs \<longrightarrow>
           (\<forall>cg\<in>set cgs. \<exists>p. long_buildFilterQueryOperator common apps q (g_type g)
                                   (filterOperator cg) (filterValue cg) = Inr p))
     \<longrightarrow> (\<exists>cols. long_buildGroupSelectQueryArr common toStr apps q = Inr cols
            \<and> list_all2 has_alias cols (concat (map (group_aliases toStr) (groups q))))"
  proof
    assume h: "long_getApplication apps q = Inr app
      \<and> (\<forall>g\<in>set (groups q). \<forall>cgs. customGroups g = Some cgs \<longrightarrow>
           (\<forall>cg\<in>set cgs. \<exists>p. long_buildFilterQueryOperator common apps q (g_type g)
                                   (filterOperator cg) (filterValue cg) = Inr p))"
    from long_group_select_total [OF conjunct1 [OF h] conjunct2 [OF h]] obtain cols where
      c: "long_buildGroupSelectQueryArr common toStr apps q = Inr cols"
      by blast
    from c long_group_select_aliases [OF c] show
      "\<exists>cols. long_buildGroupSelectQueryArr common toStr apps q = Inr cols
            \<and> list_all2 has_alias cols (concat (map (group_aliases toStr) (groups q)))"
      by blast
  qed
  show "long_buildGroupSelectQueryArr common toStr apps q = Inl e
     \<longrightarrow> long_getApplication apps q = Inl e
         \<or> (\<exists>g\<in>set (groups q). \<exists>cgs. customGroups g = Some cgs
              \<and> (\<exists>cg\<in>set cgs. \<exists>vf. long_getValueField apps q (g_type g) = Inr vf
                    \<and> common (g_type g) (filterOperator cg) (filterValue cg) vf = Inl e))"
    by (rule impI) (rule long_group_select_Inl)
  show "group_aliases id
        \<lparr> g_value = ''a'', g_type = t,
          customGroups = Some [\<lparr> filterOperator = ''equals'',
                                 filterValue = ''b|equals|c'' \<rparr>] \<rparr>
     = group_aliases id
        \<lparr> g_value = ''a|equals|b'', g_type = t,
          customGroups = Some [\<lparr> filterOperator = ''equals'', filterValue = ''c'' \<rparr>] \<rparr>"
    by (simp add: group_aliases_def)
qed

text \<open>Two groups with reserved characters, accepted; an operator the compiler rejects.\<close>

theorem reserved_characters_witness:
  "(\<exists>cols. wide_buildGroupSelectQueryArr example_common id
              (example_query\<lparr>groups :=
                 [\<lparr> g_value = ''plan|tier'', g_type = ''string'', customGroups = None \<rparr>,
                  \<lparr> g_value = ''rate'', g_type = ''number'',
                    customGroups =
                      Some [\<lparr> filterOperator = ''equals'', filterValue = ''5%'' \<rparr>,
                            \<lparr> filterOperator = ''greater than'',
                              filterValue = ''1|2'' \<rparr>] \<rparr>]\<rparr>) = Inr cols
      \<and> list_all2 has_alias cols
            [''%plan|tier'', ''%rate|equals|5%'', ''%rate|greater than|1|2''])
   \<and> (\<exists>cols. long_buildGroupSelectQueryArr example_common id [example_application]
              (example_query\<lparr>groups :=
                 [\<lparr> g_value = ''plan|tier'', g_type = ''string'', customGroups = None \<rparr>,
                  \<lparr> g_value = ''rate'', g_type = ''number'',
                    customGroups =
                      Some [\<lparr> filterOperator = ''equals'', filterValue = ''5%'' \<rparr>,
                            \<lparr> filterOperator = ''greater than'',
                              filterValue = ''1|2'' \<rparr>] \<rparr>]\<rparr>) = Inr cols
      \<and> list_all2 has_alias cols
            [''%plan|tier'', ''%rate|equals|5%'', ''%rate|greater than|1|2''])
   \<and> wide_buildGroupSelectQueryArr example_common id
        (example_query\<lparr>groups :=
           [\<lparr> g_value = ''a|b'', g_type = ''string'',
              customGroups = Some [\<lparr> filterOperator = ''matches'',
                                     filterValue = ''x'' \<rparr>] \<rparr>]\<rparr>)
       = Inl (Error ''Unsupported operator: matches'')
   \<and> (\<exists>g\<in>set (groups (example_query\<lparr>groups :=
           [\<lparr> g_value = ''a|b'', g_type = ''string'',
              customGroups = Some [\<lparr> filterOperator = ''matches'',
                                     filterValue = ''x'' \<rparr>] \<rparr>]\<rparr>)).
        \<exists>cgs. customGroups g = Some cgs
          \<and> (\<exists>cg\<in>set cgs. example_common (g_type g) (filterOperator cg) (filterValue cg)
                              (Sql (dq @ g_value g @ dq) [])
                            = Inl (Error ''Unsupported operator: matches'')))"
proof -
  let ?q = "example_query\<lparr>groups :=
                 [\<lparr> g_value = ''plan|tier'', g_type = ''string'', customGroups = None \<rparr>,
                  \<lparr> g_value = ''rate'', g_type = ''number'',
                    customGroups =
                      Some [\<lparr> filterOperator = ''equals'', filterValue = ''5%'' \<rparr>,
                            \<lparr> filterOperator = ''greater than'',
                              filterValue = ''1|2'' \<rparr>] \<rparr>]\<rparr>"
  let ?f = "example_query\<lparr>groups :=
           [\<lparr> g_value = ''a|b'', g_type = ''string'',
              customGroups = Some [\<lparr> filterOperator = ''matches'',
                                     filterValue = ''x'' \<rparr>] \<rparr>]\<rparr>"
  have al: "concat (map (group_aliases id) (groups ?q))
              = [''%plan|tier'', ''%rate|equals|5%'', ''%rate|greater than|1|2'']"
    by (simp add: group_aliases_def)
  have wacc: "\<forall>g\<in>set (groups ?q). \<forall>cgs. customGroups g = Some cgs \<longrightarrow>
       (\<forall>cg\<in>set cgs. \<exists>p. example_common (g_type g) (filterOperator cg) (filterValue cg)
                               (Sql (dq @ g_value g @ dq) []) = Inr p)"
    by (simp add: example_common_def)
  have la: "long_getApplication [example_application] ?q = Inr example_application"
    by (simp add: long_getApplication_def example_application_def example_query_def)
  have lacc: "\<forall>g\<in>set (groups ?q). \<forall>cgs. customGroups g = Some cgs \<longrightarrow>
       (\<forall>cg\<in>set cgs. \<exists>p. long_buildFilterQueryOperator example_common
                               [example_application] ?q (g_type g)
                               (filterOperator cg) (filterValue cg) = Inr p)"
  proof -
    from long_getValueField_total [OF la, of "''number''"] obtain vf where
      vf: "long_getValueField [example_application] ?q ''number'' = Inr vf"
      by blast
    show ?thesis
      by (simp add: long_buildFilterQueryOperator_def example_common_def ebind_def vf)
  qed
  have fail: "wide_buildGroupSelectQueryArr example_common id ?f
       = Inl (Error ''Unsupported operator: matches'')"
    by (simp add: wide_buildGroupSelectQueryArr_def wide_group_columns_def
        example_common_def ebind_def)
  note t = reserved_characters_neither_escaped_nor_rejected
             [where common = example_common and toStr = id and q = ?q
                and apps = "[example_application]" and app = example_application]
  note w = t [THEN conjunct1, THEN mp, OF wacc, unfolded al]
  note l = t [THEN conjunct2, THEN conjunct2, THEN conjunct1, THEN mp, OF conjI [OF la lacc],
              unfolded al]
  note f = reserved_characters_neither_escaped_nor_rejected
             [where common = example_common and toStr = id and q = ?f
                and e = "Error ''Unsupported operator: matches''",
              THEN conjunct2, THEN conjunct1, THEN mp, OF fail]
  from w l fail f show ?thesis
    by (intro conjI)
qed

text \<open>
  A group value with \<open>|\<close> and \<open>%\<close> is accepted and appears unescaped in the alias,
  in both builders, and two different groups get the same alias.
\<close>

theorem reserved_characters_counterexample:
  "wide_buildGroupSelectQueryArr example_common id
     (example_query\<lparr>groups :=
        [\<lparr> g_value = ''a|b%c'', g_type = ''string'', customGroups = None \<rparr>]\<rparr>)
     = Inr [Sql (''a|b%c as '' @ dq @ ''%a|b%c'' @ dq) []]
   \<and> wide_buildGroupSelectQueryArr example_common id
       (example_query\<lparr>groups :=
          [\<lparr> g_value = ''a'', g_type = ''string'',
             customGroups = Some [\<lparr> filterOperator = ''equals'',
                                    filterValue = ''b|equals|c'' \<rparr>] \<rparr>]\<rparr>)
     = Inr [Sql (dq @ ''a'' @ dq @ '' = ? as '' @ dq @ ''%a|equals|b|equals|c'' @ dq)
              [BVal ''b|equals|c'']]
   \<and> wide_buildGroupSelectQueryArr example_common id
       (example_query\<lparr>groups :=
          [\<lparr> g_value = ''a|equals|b'', g_type = ''string'',
             customGroups = Some [\<lparr> filterOperator = ''equals'', filterValue = ''c'' \<rparr>] \<rparr>]\<rparr>)
     = Inr [Sql (dq @ ''a|equals|b'' @ dq @ '' = ? as '' @ dq @ ''%a|equals|b|equals|c'' @ dq)
              [BVal ''c'']]
   \<and> long_buildGroupSelectQueryArr example_common id [example_application]
       (example_query\<lparr>groups :=
          [\<lparr> g_value = ''a|b%c'', g_type = ''string'', customGroups = None \<rparr>]\<rparr>)
     = Inr [Sql (dq @ ''event_parameters'' @ dq @ ''.'' @ dq @ ''event_param_value'' @ dq
                 @ '' as '' @ dq @ ''%a|b%c'' @ dq) []]"
  by (simp add: wide_buildGroupSelectQueryArr_def wide_group_columns_def
      long_buildGroupSelectQueryArr_def long_group_columns_def long_getValueField_def
      long_getEventParametersTable_def long_getApplication_def example_common_def
      example_query_def example_application_def nullish_or_def
      ebind_def sql_simps sql_app_def raw_def bound_def)

section \<open>An unknown time unit\<close>

text \<open>
  C3 fails on the optimised path. \<open>getDateQuery\<close> throws \<open>Invalid date unit\<close> for the
  unit \<open>week\<close>, but with a date-based column and a window of a full day
  \<open>buildOptimizedDateQuerySql\<close> of either builder never asks \<open>getDateQuery\<close>: it looks the
  format up unchecked and returns a bucket expression whose format is the text
  \<open>undefined\<close>.
\<close>

theorem optimized_bucket_accepts_unknown_unit:
  "long_buildOptimizedDateQuerySql utc_dayjs [example_application]
     (example_query\<lparr>time := (time example_query)\<lparr>time_unit := ''week''\<rparr>\<rparr>)
     = Inr (Sql (''DATE_FORMAT('' @ dq @ ''events'' @ dq @ ''.'' @ dq @ ''event_date'' @ dq
                 @ '', '' @ sq @ ''undefined'' @ sq @ '') date'') [] :: string sql)
   \<and> wide_buildOptimizedDateQuerySql utc_dayjs [example_wide_application]
       (example_query\<lparr>time := (time example_query)\<lparr>time_unit := ''week''\<rparr>\<rparr>)
     = Inr (Sql (''DATE_FORMAT('' @ dq @ ''created_date'' @ dq
                 @ '', '' @ sq @ ''undefined'' @ sq @ '') date'') [] :: string sql)
   \<and> (long_getDateQuery (dq @ ''events'' @ dq @ ''.'' @ dq @ ''event_timestamp'' @ dq)
        ''week'' ''UTC'' (Some ''timestampMs'') :: error + string sql)
     = Inl (Error ''Invalid date unit: week'')"
proof -
  let ?q = "example_query\<lparr>time := (time example_query)\<lparr>time_unit := ''week''\<rparr>\<rparr>"
  have la: "long_getApplication [example_application] ?q = Inr example_application"
    by (simp add: long_getApplication_def example_application_def example_query_def)
  have wa: "wide_getApplication [example_wide_application] ?q = Inr example_wide_application"
    by (simp add: wide_getApplication_def example_wide_application_def example_query_def)
  have sp: "True = number_ge (diff_day utc_dayjs (dayjs (endAt (time ?q))) (startAt (time ?q))) 1"
    by (simp add: example_times engaged_example)
  have ldb: "et_dateBasedCreatedAtField (eventTable example_application) = Some ''event_date''"
    by (simp add: example_application_def)
  have wdb: "dateBasedCreatedAtField example_wide_application = Some ''created_date''"
    by (simp add: example_wide_application_def)
  have fmt: "format_text ''week'' = ''undefined''"
    by (simp add: format_text_def MYSQL_DATE_FORMATS_def Object_prototype_keys_def)
  have ne: "''event_date'' \<noteq> []" "''created_date'' \<noteq> []"
    by simp_all
  have names: "et_name (eventTable example_application) = ''events''"
    by (simp add: example_application_def)
  have l: "long_buildOptimizedDateQuerySql utc_dayjs [example_application] ?q
     = Inr (Sql (''DATE_FORMAT('' @ dq @ ''events'' @ dq @ ''.'' @ dq @ ''event_date'' @ dq
                 @ '', '' @ sq @ ''undefined'' @ sq @ '') date'') [])"
    using long_bucket [OF la ldb ne(1) sp] by (simp add: fmt names)
  have w: "wide_buildOptimizedDateQuerySql utc_dayjs [example_wide_application] ?q
     = Inr (Sql (''DATE_FORMAT('' @ dq @ ''created_date'' @ dq
                 @ '', '' @ sq @ ''undefined'' @ sq @ '') date'') [])"
    using wide_bucket [OF wa wdb ne(2) sp] by (simp add: fmt)
  have g: "(long_getDateQuery (dq @ ''events'' @ dq @ ''.'' @ dq @ ''event_timestamp'' @ dq)
        ''week'' ''UTC'' (Some ''timestampMs'') :: error + string sql)
     = Inl (Error ''Invalid date unit: week'')"
    by (simp add: long_getDateQuery_def in_MYSQL_DATE_FORMATS_def MYSQL_DATE_FORMATS_def
        Object_prototype_keys_def)
  from l w g show ?thesis
    by (intro conjI)
qed

section \<open>Resolving the application\<close>

text \<open>
  C7 fails in the long-table builder. Its \<open>getApplication\<close> compares names only: with a
  wide-table application of the same name first in the list, it returns that one. The
  wide-table builder compares name and type, and skips an entry of the other type.
\<close>

theorem long_getApplication_ignores_type:
  "long_getApplication
     [example_application\<lparr>app_type := ''wideTable''\<rparr>, example_application]
     example_query
   = Inr (example_application\<lparr>app_type := ''wideTable''\<rparr>)
   \<and> app_type (example_application\<lparr>app_type := ''wideTable''\<rparr>) = ''wideTable''
   \<and> wide_getApplication
       [example_wide_application\<lparr>w_type := ''longTable''\<rparr>, example_wide_application]
       example_query
     = Inr example_wide_application"
  by (simp add: long_getApplication_def wide_getApplication_def example_application_def
      example_wide_application_def example_query_def)

section \<open>The cache of the application list\<close>

text \<open>
  C8, as the code has it. Once a call has returned a list, the variable holds it, and
  every later call returns that list whatever parser and setting it is given: nothing is
  read or parsed again. A first call whose parse throws leaves the variable \<open>null\<close>, and
  the next call reads the setting and parses again.
\<close>

theorem applications_cached_after_first_success:
  "(getWarehouseApplications parse json st = (Inr apps, st') \<longrightarrow>
      st' = Some apps
      \<and> getWarehouseApplications parse' json' st' = (Inr apps, st')
      \<and> getWarehouseApplications_calls parse' js st' = replicate (length js) (Inr apps))
   \<and> (getWarehouseApplications parse json None = (Inl e, st') \<longrightarrow>
      st' = None
      \<and> getWarehouseApplications parse' json' st'
          = (case parse' (if truthy json' then tpl_string json' else ''[]'') of
               Inl e' \<Rightarrow> (Inl e', None)
             | Inr parsed \<Rightarrow> (Inr parsed, Some parsed)))"
proof (intro conjI impI)
  assume a: "getWarehouseApplications parse json st = (Inr apps, st')"
  show s: "st' = Some apps"
    by (rule getWarehouseApplications_Inr [OF a])
  show "getWarehouseApplications parse' json' st' = (Inr apps, st')"
    unfolding s by (rule getWarehouseApplications_cached)
  show "getWarehouseApplications_calls parse' js st' = replicate (length js) (Inr apps)"
    unfolding s by (rule getWarehouseApplications_calls_cached)
next
  assume a: "getWarehouseApplications parse json None = (Inl e, st')"
  then show s: "st' = None"
    by (auto simp: getWarehouseApplications_def split: sum.splits)
  show "getWarehouseApplications parse' json' st'
          = (case parse' (if truthy json' then tpl_string json' else ''[]'') of
               Inl e' \<Rightarrow> (Inl e', None)
             | Inr parsed \<Rightarrow> (Inr parsed, Some parsed))"
    unfolding s by (simp add: getWarehouseApplications_def)
qed

text \<open>A first call that succeeds, later calls under other settings, and a first call that throws.\<close>

theorem applications_cache_witness:
  "getWarehouseApplications example_parse None None = (Inr [], Some [])
   \<and> getWarehouseApplications example_parse (Some ''{'') (Some []) = (Inr [], Some [])
   \<and> getWarehouseApplications_calls example_parse [Some ''{'', None, Some ''[]''] (Some [])
       = [Inr [], Inr [], Inr []]
   \<and> getWarehouseApplications example_parse (Some ''{'') None
       = (Inl (Error ''Unexpected token''), None)
   \<and> getWarehouseApplications example_parse (Some ''[]'') None = (Inr [], Some [])"
proof -
  have first: "getWarehouseApplications example_parse None None = (Inr [], Some [])"
    by (simp add: getWarehouseApplications_def example_parse_def truthy_def)
  have bad: "getWarehouseApplications example_parse (Some ''{'') None
       = (Inl (Error ''Unexpected token''), None)"
    by (simp add: getWarehouseApplications_def example_parse_def truthy_def tpl_string_def)
  have again: "example_parse (if truthy (Some ''[]'') then tpl_string (Some ''[]'') else ''[]'')
       = Inr []"
    by (simp add: example_parse_def truthy_def tpl_string_def)
  note t1 = applications_cached_after_first_success
              [where parse = example_parse and json = None and st = None and apps = "[]"
                 and st' = "Some []" and parse' = example_parse and json' = "Some ''{''"
                 and js = "[Some ''{'', None, Some ''[]'']"]
  note q1 = t1 [THEN conjunct1, THEN mp, OF first]
  note a = q1 [THEN conjunct2, THEN conjunct1]
  note b0 = q1 [THEN conjunct2, THEN conjunct2]
  have r: "replicate (length [Some ''{'', None, Some ''[]''])
             (Inr [] :: error + warehouse_application list) = [Inr [], Inr [], Inr []]"
    by (simp add: numeral_3_eq_3)
  from b0 r have b: "getWarehouseApplications_calls example_parse
                       [Some ''{'', None, Some ''[]''] (Some [])
                     = [Inr [], Inr [], Inr []]"
    by (rule trans)
  note t2 = applications_cached_after_first_success
              [where parse = example_parse and json = "Some ''{''"
                 and e = "Error ''Unexpected token''" and st' = None
                 and parse' = example_parse and json' = "Some ''[]''"]
  from t2 bad
  have c: "getWarehouseApplications example_parse (Some ''[]'') None = (Inr [], Some [])"
    by (simp add: again)
  from first a b bad c show ?thesis
    by (intro conjI)
qed

text \<open>
  Not every sequence of calls parses once: after a first call that throws on a malformed
  setting, the second call parses again and throws again, and the third, the setting now
  absent, parses the default and returns a list.
\<close>

theorem applications_reparsed_after_failure_counterexample:
  "getWarehouseApplications_calls example_parse [Some ''{'', Some ''{'', None] None
     = [Inl (Error ''Unexpected token''), Inl (Error ''Unexpected token''), Inr []]"
  by (simp add: getWarehouseApplications_def example_parse_def truthy_def tpl_string_def)

section \<open>Dispatch of the events listing to a builder\<close>

text \<open>
  C10. When the lookup resolves to nothing, or to an application whose type is not
  \<open>wideTable\<close>, \<open>queryWarehouseEvents\<close> is the long-table builder's \<open>queryEvents\<close> on the
  query's cursor: the dispatch itself does not fail. Only an application of type
  \<open>wideTable\<close> goes to the wide-table builder.
\<close>

theorem events_dispatch_defaults_to_long_table:
  "(findWarehouseApplication (workspaceId q) (insightId q) = Inr None \<longrightarrow>
      queryWarehouseEvents findWarehouseApplication wide_queryEvents long_queryEvents q ctx
        = long_queryEvents q ctx (cursor q))
   \<and> (findWarehouseApplication (workspaceId q) (insightId q) = Inr (Some a)
        \<and> w_type a \<noteq> ''wideTable'' \<longrightarrow>
      queryWarehouseEvents findWarehouseApplication wide_queryEvents long_queryEvents q ctx
        = long_queryEvents q ctx (cursor q))
   \<and> (findWarehouseApplication (workspaceId q) (insightId q) = Inr (Some a)
        \<and> w_type a = ''wideTable'' \<longrightarrow>
      queryWarehouseEvents findWarehouseApplication wide_queryEvents long_queryEvents q ctx
        = wide_queryEvents q ctx (cursor q))"
  by (simp add: queryWarehouseEvents_found)

text \<open>An unknown name, a long-table application and a wide-table application.\<close>

theorem events_dispatch_witness:
  "example_find (workspaceId (example_query\<lparr>insightId := ''unknown''\<rparr>))
       (insightId (example_query\<lparr>insightId := ''unknown''\<rparr>)) = Inr None
   \<and> queryWarehouseEvents example_find example_wide_queryEvents example_long_queryEvents
       (example_query\<lparr>insightId := ''unknown''\<rparr>) \<lparr> ctx_timezone = ''UTC'' \<rparr>
     = Inr ''long-table builder''
   \<and> queryWarehouseEvents example_find example_wide_queryEvents example_long_queryEvents
       (example_query\<lparr>insightId := ''legacy''\<rparr>) \<lparr> ctx_timezone = ''UTC'' \<rparr>
     = Inr ''long-table builder''
   \<and> queryWarehouseEvents example_find example_wide_queryEvents example_long_queryEvents
       example_query \<lparr> ctx_timezone = ''UTC'' \<rparr>
     = Inr ''wide-table builder''"
proof -
  let ?u = "example_query\<lparr>insightId := ''unknown''\<rparr>"
  let ?l = "example_query\<lparr>insightId := ''legacy''\<rparr>"
  let ?legacy = "example_wide_application\<lparr>w_name := ''legacy'', w_type := ''longTable''\<rparr>"
  have fu: "example_find (workspaceId ?u) (insightId ?u) = Inr None"
    by (simp add: example_find_def example_wide_application_def)
  have fl: "example_find (workspaceId ?l) (insightId ?l) = Inr (Some ?legacy)"
    by (simp add: example_find_def example_wide_application_def)
  have fw: "example_find (workspaceId example_query) (insightId example_query)
              = Inr (Some example_wide_application)"
    by (simp add: example_find_def example_wide_application_def example_query_def)
  have tl: "w_type ?legacy \<noteq> ''wideTable''"
    by simp
  have tw: "w_type example_wide_application = ''wideTable''"
    by (simp add: example_wide_application_def)
  from events_dispatch_defaults_to_long_table
         [where findWarehouseApplication = example_find and q = ?u
            and wide_queryEvents = example_wide_queryEvents
            and long_queryEvents = example_long_queryEvents
            and ctx = "\<lparr> ctx_timezone = ''UTC'' \<rparr>"] fu
  have a: "queryWarehouseEvents example_find example_wide_queryEvents
             example_long_queryEvents ?u \<lparr> ctx_timezone = ''UTC'' \<rparr>
           = Inr ''long-table builder''"
    by (simp add: example_long_queryEvents_def)
  from events_dispatch_defaults_to_long_table
         [where findWarehouseApplication = example_find and q = ?l and a = ?legacy
            and wide_queryEvents = example_wide_queryEvents
            and long_queryEvents = example_long_queryEvents
            and ctx = "\<lparr> ctx_timezone = ''UTC'' \<rparr>"] fl tl
  have b: "queryWarehouseEvents example_find example_wide_queryEvents
             example_long_queryEvents ?l \<lparr> ctx_timezone = ''UTC'' \<rparr>
           = Inr ''long-table builder''"
    by (simp add: example_long_queryEvents_def)
  from events_dispatch_defaults_to_long_table
         [where findWarehouseApplication = example_find and q = example_query
            and a = example_wide_application
            and wide_queryEvents = example_wide_queryEvents
            and long_queryEvents = example_long_queryEvents
            and ctx = "\<lparr> ctx_timezone = ''UTC'' \<rparr>"] fw tw
  have c: "queryWarehouseEvents example_find example_wide_queryEvents
             example_long_queryEvents example_query \<lparr> ctx_timezone = ''UTC'' \<rparr>
           = Inr ''wide-table builder''"
    by (simp add: example_wide_queryEvents_def)
  from fu a b c show ?thesis
    by (intro conjI)
qed

end
